theory Spec2Isabelle
  imports Complex_Main "HOL-Library.Word"
begin

section \<open>Scratch allocator (struct LinearAllocator)\<close>

text \<open>
  \<^verbatim>\<open>struct LinearAllocator\<close> has four fields: the buffer pointer and three \<^verbatim>\<open>size_t\<close>
  counters. \<^verbatim>\<open>size_t\<close> is an unsigned machine integer whose width depends on the
  platform, so the record is generic in the type \<open>'s\<close> of \<^verbatim>\<open>size_t\<close> and the
  methods take it to be \<open>'w word\<close> for an arbitrary width \<open>'w\<close>: \<open>+\<close> wraps
  around as it does in C++. The buffer pointer is \<open>None\<close> when null and \<open>Some b\<close>
  when it holds the base address \<open>b\<close>.
\<close>

record 's LinearAllocator =
  buffer :: "'s option"
  capacity :: 's
  top :: 's
  high :: 's

text \<open>\<^verbatim>\<open>dtMax(a, b)\<close> is the larger of the two.\<close>

definition dtMax :: "('a::linorder) \<Rightarrow> 'a \<Rightarrow> 'a" where
  "dtMax a b = (if a < b then b else a)"

text \<open>
  \<^verbatim>\<open>resize(cap)\<close>: frees the old buffer, takes what \<^verbatim>\<open>dtAlloc(cap, DT_ALLOC_PERM)\<close>
  returns (a parameter: the permanent allocator is an external collaborator and may
  return null) and records the capacity.
\<close>

definition resize ::
  "('w word \<Rightarrow> 'w word option) \<Rightarrow> 'w word \<Rightarrow> ('w::len) word LinearAllocator \<Rightarrow> 'w word LinearAllocator" where
  "resize dtAlloc cap a = a\<lparr>buffer := dtAlloc cap, capacity := cap\<rparr>"

text \<open>The constructor: every field zero, then \<^verbatim>\<open>resize(cap)\<close>.\<close>

definition LinearAllocator_new ::
  "('w word \<Rightarrow> 'w word option) \<Rightarrow> 'w word \<Rightarrow> ('w::len) word LinearAllocator" where
  "LinearAllocator_new dtAlloc cap =
     resize dtAlloc cap \<lparr>buffer = None, capacity = 0, top = 0, high = 0\<rparr>"

definition reset :: "('w::len) word LinearAllocator \<Rightarrow> 'w word LinearAllocator" where
  "reset a = a\<lparr>high := dtMax (high a) (top a), top := 0\<rparr>"

text \<open>
  \<^verbatim>\<open>alloc(size)\<close> returns the pointer (\<open>None\<close> is the null pointer) and the allocator.
  The test \<^verbatim>\<open>top+size > capacity\<close> is computed in \<^verbatim>\<open>size_t\<close>, as written
  (\<open>sz\<close> is the parameter \<^verbatim>\<open>size\<close>).
\<close>

definition alloc :: "'w word \<Rightarrow> ('w::len) word LinearAllocator \<Rightarrow> 'w word option \<times> 'w word LinearAllocator" where
  "alloc sz a =
     (case buffer a of
        None \<Rightarrow> (None, a)
      | Some b \<Rightarrow>
          if top a + sz > capacity a then (None, a)
          else (Some (b + top a), a\<lparr>top := top a + sz\<rparr>))"

text \<open>\<^verbatim>\<open>free(ptr)\<close> has an empty body.\<close>

definition free :: "'w word option \<Rightarrow> ('w::len) word LinearAllocator \<Rightarrow> 'w word LinearAllocator" where
  "free ptr a = a"

text \<open>A call sequence on one allocator: the three virtual methods a tile cache calls.\<close>

datatype 's alloc_call = Alloc 's | Reset | Free "'s option"

fun alloc_step :: "('w::len) word LinearAllocator \<Rightarrow> 'w word alloc_call \<Rightarrow> 'w word LinearAllocator" where
  "alloc_step a (Alloc n) = snd (alloc n a)"
| "alloc_step a Reset = reset a"
| "alloc_step a (Free p) = free p a"

definition run_calls :: "('w::len) word LinearAllocator \<Rightarrow> 'w word alloc_call list \<Rightarrow> 'w word LinearAllocator" where
  "run_calls a cs = foldl alloc_step a cs"

text \<open>
  The outstanding size: the sum, as a number, of the sizes of the allocations granted
  since the last \<^verbatim>\<open>reset\<close>. The allocator's own count of it is the field \<^verbatim>\<open>top\<close>, a
  \<^verbatim>\<open>size_t\<close>; the sum is kept beside the allocator along a call sequence so that the
  two can be compared. \<open>peak\<close> is the largest value the sum has had.
\<close>

record usage =
  outstanding :: nat
  peak :: nat

fun usage_step ::
  "('w::len) word LinearAllocator \<times> usage \<Rightarrow> 'w word alloc_call \<Rightarrow> 'w word LinearAllocator \<times> usage" where
  "usage_step (a, u) (Alloc n) =
     (snd (alloc n a),
      if fst (alloc n a) = None then u
      else \<lparr>outstanding = outstanding u + unat n, peak = max (peak u) (outstanding u + unat n)\<rparr>)"
| "usage_step (a, u) Reset = (reset a, u\<lparr>outstanding := 0\<rparr>)"
| "usage_step (a, u) (Free p) = (free p a, u)"

definition run_usage :: "('w::len) word LinearAllocator \<Rightarrow> 'w word alloc_call list \<Rightarrow> usage" where
  "run_usage a cs = snd (foldl usage_step (a, \<lparr>outstanding = 0, peak = 0\<rparr>) cs)"

text \<open>No \<^verbatim>\<open>alloc\<close> of the call sequence computes a sum \<^verbatim>\<open>top+size\<close> that wraps.\<close>

fun no_wrap :: "('w::len) word LinearAllocator \<Rightarrow> 'w word alloc_call list \<Rightarrow> bool" where
  "no_wrap a [] = True"
| "no_wrap a (Alloc n # cs) =
     (unat (top a) + unat n < 2 ^ LENGTH('w) \<and> no_wrap (snd (alloc n a)) cs)"
| "no_wrap a (Reset # cs) = no_wrap (reset a) cs"
| "no_wrap a (Free p # cs) = no_wrap (free p a) cs"

section \<open>Data model of the sample\<close>

text \<open>
  Structs are records with the fields the sample uses. Where two structs have a field
  of the same name, the field carries a short prefix naming its struct (\<open>lh_\<close> for the
  layer header, \<open>tc_\<close> and \<open>nm_\<close> for the two parameter blocks, \<open>ob_\<close> for obstacles,
  \<open>sh_\<close> and \<open>th_\<close> for the headers of the persisted file, \<open>cv_\<close> and \<open>nh_\<close> for convex
  volumes and hints). A C \<^verbatim>\<open>int\<close> that is only copied, counted or compared is an \<open>int\<close>;
  a \<^verbatim>\<open>float\<close> is only ever copied and is a \<open>real\<close>.
\<close>

text \<open>
  Pointers to heap objects. The sample tests pointers against null, frees them and
  overwrites them with new allocations; \<^verbatim>\<open>dtFreeNavMesh\<close>, \<^verbatim>\<open>dtFreeTileCache\<close> and
  \<^verbatim>\<open>dtFreeNavMeshQuery\<close> release the object and leave the caller's pointer as it was, so
  a freed pointer is neither null nor usable. Objects are owned by exactly one pointer,
  so the object is kept inside the pointer value.
\<close>

datatype 'a ptr = Null | Ptr 'a | Dangling

text \<open>Every operation that would dereference a null or dangling pointer, free a
  dangling one, or index an array out of bounds is undefined behaviour in C++; the
  functions below return \<open>None\<close> there.\<close>

definition deref :: "'a ptr \<Rightarrow> 'a option" where
  "deref p = (case p of Ptr x \<Rightarrow> Some x | _ \<Rightarrow> None)"

definition is_null :: "'a ptr \<Rightarrow> bool" where
  "is_null p = (case p of Null \<Rightarrow> True | _ \<Rightarrow> False)"

definition dtFree_ptr :: "'a ptr \<Rightarrow> 'a ptr option" where
  "dtFree_ptr p = (case p of Null \<Rightarrow> Some Null | Ptr x \<Rightarrow> Some Dangling | Dangling \<Rightarrow> None)"

definition index :: "'a list \<Rightarrow> int \<Rightarrow> 'a option" where
  "index xs i = (if 0 \<le> i \<and> i < int (length xs) then Some (xs ! nat i) else None)"

type_synonym byte = "8 word"
type_synonym float = real
type_synonym vec3 = "float \<times> float \<times> float"

text \<open>
  Modelled from the spec: the enumeration of obstacle states is declared in the tile
  cache's header, which is not among the sources. The spec lists the states EMPTY,
  PROCESSING, PROCESSED and REMOVING, and the sample names exactly these constants.
\<close>

datatype ObstacleState =
  DT_OBSTACLE_EMPTY | DT_OBSTACLE_PROCESSING | DT_OBSTACLE_PROCESSED | DT_OBSTACLE_REMOVING

text \<open>
  Modelled from the spec: the enumeration of connection states is declared in the tile
  cache's header, which is not among the sources. The spec lists the states EMPTY,
  DIRTY (pending connect) and REMOVING, and the sample names exactly these constants.
\<close>

datatype OffMeshState = DT_OFFMESH_EMPTY | DT_OFFMESH_DIRTY | DT_OFFMESH_REMOVING

text \<open>\<^verbatim>\<open>dtTileCacheObstacle\<close>: the cylinder \<^verbatim>\<open>addObstacle(pos, radius, height, area, ...)\<close>
  stores, and its state.\<close>

record dtTileCacheObstacle =
  ob_pos :: vec3
  ob_radius :: float
  ob_height :: float
  ob_area :: byte
  ob_state :: ObstacleState

text \<open>\<^verbatim>\<open>dtOffMeshConnection\<close>, with the fields the sample reads: \<^verbatim>\<open>pos[0..2]\<close> is the
  start and \<^verbatim>\<open>pos[3..5]\<close> the end point.\<close>

record dtOffMeshConnection =
  pos :: "vec3 \<times> vec3"
  rad :: float
  area :: byte
  flags :: "32 word"
  bBiDir :: bool
  state :: OffMeshState

text \<open>\<^verbatim>\<open>dtTileCacheLayerHeader\<close>, as \<^verbatim>\<open>rasterizeTileLayers\<close> fills it.\<close>

record dtTileCacheLayerHeader =
  lh_magic :: int
  lh_version :: int
  tx :: int
  ty :: int
  tlayer :: int
  lh_bmin :: vec3
  lh_bmax :: vec3
  lh_hmin :: "16 word"
  lh_hmax :: "16 word"
  lh_width :: byte
  lh_height :: byte
  lh_minx :: byte
  lh_maxx :: byte
  lh_miny :: byte
  lh_maxy :: byte

text \<open>\<^verbatim>\<open>dtTileCacheParams\<close> and \<^verbatim>\<open>dtNavMeshParams\<close>, as \<^verbatim>\<open>handleBuild\<close> fills them.\<close>

record dtTileCacheParams =
  tc_orig :: vec3
  tc_cs :: float
  tc_ch :: float
  tc_width :: int
  tc_height :: int
  tc_walkableHeight :: float
  tc_crouchHeight :: float
  tc_walkableRadius :: float
  tc_walkableClimb :: float
  tc_maxSimplificationError :: float
  tc_maxTiles :: int
  tc_maxObstacles :: int
  tc_maxOffMeshConnections :: int

record dtNavMeshParams =
  nm_orig :: vec3
  nm_tileWidth :: float
  nm_tileHeight :: float
  nm_maxTiles :: int
  nm_maxPolys :: int

text \<open>
  \<^verbatim>\<open>dtCompressedTile\<close>: a slot of the tile cache. \<^verbatim>\<open>header\<close> is null in a free slot and
  otherwise points at the layer header at the front of \<^verbatim>\<open>data\<close>. The buffer \<^verbatim>\<open>data\<close> of
  \<^verbatim>\<open>dataSize\<close> bytes is a byte list, and \<^verbatim>\<open>dataSize\<close> is its length.
\<close>

record dtCompressedTile =
  salt :: nat
  header :: "dtTileCacheLayerHeader option"
  data :: "byte list"

definition dataSize :: "dtCompressedTile \<Rightarrow> int" where
  "dataSize t = int (length (data t))"

text \<open>
  Modelled from the spec: \<^verbatim>\<open>dtCompressedTileRef\<close> is declared in the tile cache's header,
  which is not among the sources. The spec's handle of a slot is composed of its
  generation and its index; the null handle 0 is \<open>(0, 0)\<close>.
\<close>

type_synonym dtCompressedTileRef = "nat \<times> nat"

text \<open>
  Modelled from the spec: the class \<^verbatim>\<open>dtTileCache\<close> is declared and implemented in the tile
  cache's own files, which are not among the sources. The spec's store owns the
  compressed tiles, a table of obstacles and a table of off-mesh connections, each a
  table of slots with a free list of slot indices; the accessors the sample calls
  (\<^verbatim>\<open>getTileCount\<close>/\<^verbatim>\<open>getTile\<close>, \<^verbatim>\<open>getObstacleCount\<close>/\<^verbatim>\<open>getObstacle\<close>,
  \<^verbatim>\<open>getOffMeshCount\<close>/\<^verbatim>\<open>getOffMeshConnection\<close>) enumerate the slots, free ones included,
  which is why every loop of the sample skips the EMPTY state or the null header.
\<close>

record dtTileCache =
  m_params :: dtTileCacheParams
  m_tiles :: "dtCompressedTile list"
  m_nextFreeTile :: "nat list"
  m_obstacles :: "dtTileCacheObstacle list"
  m_nextFreeObstacle :: "nat list"
  m_offMeshConnections :: "dtOffMeshConnection list"
  m_nextFreeOffMeshConnection :: "nat list"

text \<open>The zero vector and the parameter block of all zeros.\<close>

definition zero_vec3 :: vec3 where
  "zero_vec3 = (0, 0, 0)"

definition zero_dtTileCacheParams :: dtTileCacheParams where
  "zero_dtTileCacheParams =
     \<lparr>tc_orig = zero_vec3, tc_cs = 0, tc_ch = 0, tc_width = 0, tc_height = 0,
      tc_walkableHeight = 0, tc_crouchHeight = 0, tc_walkableRadius = 0,
      tc_walkableClimb = 0, tc_maxSimplificationError = 0, tc_maxTiles = 0,
      tc_maxObstacles = 0, tc_maxOffMeshConnections = 0\<rparr>"

text \<open>
  Modelled from the spec: \<^verbatim>\<open>dtAllocTileCache\<close> is not among the sources. The object it
  returns has not been initialised: it has no tables yet.
\<close>

definition dtAllocTileCache_object :: dtTileCache where
  "dtAllocTileCache_object =
     \<lparr>m_params = zero_dtTileCacheParams, m_tiles = [], m_nextFreeTile = [],
      m_obstacles = [], m_nextFreeObstacle = [],
      m_offMeshConnections = [], m_nextFreeOffMeshConnection = []\<rparr>"

text \<open>
  Modelled from the spec: the free slots of the three tables are set up by
  \<^verbatim>\<open>dtTileCache::init\<close>, which is not among the sources. A free tile slot has no header
  and no data, a free obstacle and a free connection are in state EMPTY; generations
  start at 1, so that no handle of a slot is the null handle.
\<close>

definition free_tile :: dtCompressedTile where
  "free_tile = \<lparr>salt = 1, header = None, data = []\<rparr>"

definition free_obstacle :: dtTileCacheObstacle where
  "free_obstacle =
     \<lparr>ob_pos = zero_vec3, ob_radius = 0, ob_height = 0, ob_area = 0,
      ob_state = DT_OBSTACLE_EMPTY\<rparr>"

definition free_offMeshConnection :: dtOffMeshConnection where
  "free_offMeshConnection =
     \<lparr>pos = (zero_vec3, zero_vec3), rad = 0, area = 0, flags = 0, bBiDir = False,
      state = DT_OFFMESH_EMPTY\<rparr>"

text \<open>
  Modelled from the spec: \<^verbatim>\<open>dtTileCache::init\<close> is not among the sources.
  \<^verbatim>\<open>init(params, ...)\<close> gives the store the configured numbers of tile, obstacle and
  connection slots, all free, with the free lists in slot order.
\<close>

definition dtTileCache_init :: "dtTileCacheParams \<Rightarrow> dtTileCache" where
  "dtTileCache_init p =
     \<lparr>m_params = p,
      m_tiles = replicate (nat (tc_maxTiles p)) free_tile,
      m_nextFreeTile = [0..<nat (tc_maxTiles p)],
      m_obstacles = replicate (nat (tc_maxObstacles p)) free_obstacle,
      m_nextFreeObstacle = [0..<nat (tc_maxObstacles p)],
      m_offMeshConnections = replicate (nat (tc_maxOffMeshConnections p)) free_offMeshConnection,
      m_nextFreeOffMeshConnection = [0..<nat (tc_maxOffMeshConnections p)]\<rparr>"

text \<open>The status of a Detour call: only success and failure are told apart.\<close>

datatype dtStatus = DT_SUCCESS | DT_FAILURE

definition dtStatusFailed :: "dtStatus \<Rightarrow> bool" where
  "dtStatusFailed s = (s = DT_FAILURE)"

definition null_ref :: dtCompressedTileRef where
  "null_ref = (0, 0)"

text \<open>
  Modelled from the spec: \<^verbatim>\<open>dtTileCache::getTileRef\<close> is not among the sources. The handle
  of a slot is its generation and its index.
\<close>

definition getTileRef :: "dtTileCache \<Rightarrow> nat \<Rightarrow> dtCompressedTileRef" where
  "getTileRef tc i = (salt (m_tiles tc ! i), i)"

text \<open>
  Modelled from the spec: \<^verbatim>\<open>dtTileCache::addTile\<close> is not among the sources. It takes
  ownership of the compressed bytes and assigns a slot from the free list; it fails
  (CapacityError) when no slot is free, leaving the store as it was and the caller's
  result handle untouched (\<open>None\<close>). \<open>layerHeader\<close> is the cast of the front of the
  buffer to \<^verbatim>\<open>dtTileCacheLayerHeader\<close>, which depends on the memory layout and is a
  parameter.
\<close>

definition addTile ::
  "(byte list \<Rightarrow> dtTileCacheLayerHeader) \<Rightarrow> byte list \<Rightarrow> dtTileCache
   \<Rightarrow> dtStatus \<times> dtCompressedTileRef option \<times> dtTileCache" where
  "addTile layerHeader bytes tc =
     (case m_nextFreeTile tc of
        [] \<Rightarrow> (DT_FAILURE, None, tc)
      | i # rest \<Rightarrow>
          (let tc' = tc\<lparr>m_tiles := (m_tiles tc)[i := (m_tiles tc ! i)\<lparr>header := Some (layerHeader bytes), data := bytes\<rparr>],
                         m_nextFreeTile := rest\<rparr>
           in (DT_SUCCESS, Some (getTileRef tc' i), tc')))"

text \<open>
  Modelled from the spec: \<^verbatim>\<open>dtTileCache::addOffMeshConnection\<close> is not among the sources.
  Connections get the treatment of obstacles: a slot from the free list (CapacityError
  when the table is full) and the state of a connection pending its connect, DIRTY.
\<close>

definition addOffMeshConnection ::
  "vec3 \<Rightarrow> vec3 \<Rightarrow> float \<Rightarrow> byte \<Rightarrow> 32 word \<Rightarrow> bool \<Rightarrow> dtTileCache \<Rightarrow> dtStatus \<times> dtTileCache" where
  "addOffMeshConnection spos epos r a fl bidir tc =
     (case m_nextFreeOffMeshConnection tc of
        [] \<Rightarrow> (DT_FAILURE, tc)
      | i # rest \<Rightarrow>
          (DT_SUCCESS,
           tc\<lparr>m_offMeshConnections := (m_offMeshConnections tc)
                  [i := \<lparr>pos = (spos, epos), rad = r, area = a, flags = fl, bBiDir = bidir,
                         state = DT_OFFMESH_DIRTY\<rparr>],
              m_nextFreeOffMeshConnection := rest\<rparr>))"

text \<open>\<^verbatim>\<open>NavMeshEntry\<close>: one element of \<^verbatim>\<open>m_NavMeshArray\<close>. The navigation mesh \<open>'n\<close> and
  the query object \<open>'q\<close> are external types.\<close>

record ('n, 'q) NavMeshEntry =
  m_navMesh :: "'n ptr"
  m_tileCache :: "dtTileCache ptr"
  m_navQuery :: "'q ptr"

section \<open>Layer codec (struct FastLZCompressor)\<close>

text \<open>
  The codec of the sample wraps the two entry points of the FastLZ library,
  \<^verbatim>\<open>fastlz_compress(input, length, output)\<close> and
  \<^verbatim>\<open>fastlz_decompress(input, length, output, maxout)\<close>. The library is not among the
  sources, so both are parameters: each gives the \<^verbatim>\<open>int\<close> it returns and the bytes it
  has written to its output buffer. \<^verbatim>\<open>maxCompressedSize\<close> is the single-precision
  product \<^verbatim>\<open>(int)(bufferSize*1.05f)\<close> and is not modelled.
\<close>

text \<open>\<^verbatim>\<open>compress\<close>: the status, the output buffer and \<^verbatim>\<open>*compressedSize\<close>. The parameter
  \<^verbatim>\<open>maxCompressedSize\<close> is unused, as in the source.\<close>

definition compress ::
  "(byte list \<Rightarrow> int \<times> byte list) \<Rightarrow> byte list \<Rightarrow> dtStatus \<times> byte list \<times> int" where
  "compress fastlz_compress buf =
     (let r = fastlz_compress buf in (DT_SUCCESS, snd r, fst r))"

text \<open>\<^verbatim>\<open>decompress\<close>: the status, the output buffer and \<^verbatim>\<open>*bufferSize\<close>.\<close>

definition decompress ::
  "(byte list \<Rightarrow> int \<Rightarrow> int \<times> byte list) \<Rightarrow> byte list \<Rightarrow> int \<Rightarrow> dtStatus \<times> byte list \<times> int" where
  "decompress fastlz_decompress compressed maxBufferSize =
     (let r = fastlz_decompress compressed maxBufferSize
      in (if fst r < 0 then DT_FAILURE else DT_SUCCESS, snd r, fst r))"

section \<open>The per-frame update (Sample_TempObstacles::handleUpdate)\<close>

text \<open>
  The loop of \<^verbatim>\<open>handleUpdate\<close> from index \<open>i\<close> on. \<open>update\<close> is
  \<^verbatim>\<open>dtTileCache::update(dt, navmesh)\<close>, an external collaborator that changes the cache and
  the mesh. The result is the array and the list of indices whose tile cache was
  updated, in call order; \<open>None\<close> is undefined behaviour (an index outside the array or
  a dangling pointer). The two \<^verbatim>\<open>return\<close> statements end the whole function.
\<close>

function handleUpdate_loop ::
  "(float \<Rightarrow> dtTileCache \<Rightarrow> 'n \<Rightarrow> dtTileCache \<times> 'n) \<Rightarrow> float \<Rightarrow> int \<Rightarrow> int
   \<Rightarrow> ('n, 'q) NavMeshEntry list \<Rightarrow> (('n, 'q) NavMeshEntry list \<times> int list) option" where
  "handleUpdate_loop update dt NumMeshes i arr =
     (if i < NumMeshes then
        (case index arr i of
           None \<Rightarrow> None
         | Some e \<Rightarrow>
             if is_null (m_navMesh e) then Some (arr, [])
             else if is_null (m_tileCache e) then Some (arr, [])
             else
               (case deref (m_tileCache e) of
                  None \<Rightarrow> None
                | Some tc \<Rightarrow>
                    (case deref (m_navMesh e) of
                       None \<Rightarrow> None
                     | Some nm \<Rightarrow>
                         (case update dt tc nm of
                            (tc', nm') \<Rightarrow>
                              map_option (\<lambda>(a, calls). (a, i # calls))
                                (handleUpdate_loop update dt NumMeshes (i + 1)
                                   (arr[nat i := e\<lparr>m_navMesh := Ptr nm', m_tileCache := Ptr tc'\<rparr>]))))))
      else Some (arr, []))"
  by pat_completeness auto
termination
  by (relation "measure (\<lambda>(update, dt, NumMeshes, i, arr). nat (NumMeshes - i))") auto

declare handleUpdate_loop.simps [simp del]

text \<open>
  The sample object: the input geometry \<^verbatim>\<open>m_geom\<close> (an external type \<open>'g\<close>) and the
  array of navigation meshes.
\<close>

record ('g, 'n, 'q) Sample_TempObstacles =
  m_geom :: 'g
  m_NavMeshArray :: "('n, 'q) NavMeshEntry list"

text \<open>
  \<^verbatim>\<open>handleUpdate(dt)\<close>: the base class's \<^verbatim>\<open>Sample::handleUpdate(dt)\<close> and
  \<^verbatim>\<open>GetNumNavMeshes()\<close> are external; then the loop.
\<close>

definition handleUpdate ::
  "(float \<Rightarrow> ('g, 'n, 'q) Sample_TempObstacles \<Rightarrow> ('g, 'n, 'q) Sample_TempObstacles) \<Rightarrow> int
   \<Rightarrow> (float \<Rightarrow> dtTileCache \<Rightarrow> 'n \<Rightarrow> dtTileCache \<times> 'n)
   \<Rightarrow> float \<Rightarrow> ('g, 'n, 'q) Sample_TempObstacles \<Rightarrow> ('g, 'n, 'q) Sample_TempObstacles option" where
  "handleUpdate Sample_handleUpdate GetNumNavMeshes update dt s =
     (let s1 = Sample_handleUpdate dt s
      in map_option (\<lambda>(arr, calls). s1\<lparr>m_NavMeshArray := arr\<rparr>)
           (handleUpdate_loop update dt GetNumNavMeshes 0 (m_NavMeshArray s1)))"

section \<open>Rasterizing one tile (Sample_TempObstacles::rasterizeTileLayers)\<close>

definition MAX_LAYERS :: int where
  "MAX_LAYERS = 32"

text \<open>\<^verbatim>\<open>rcMin(a, b)\<close> is the smaller of the two.\<close>

definition rcMin :: "int \<Rightarrow> int \<Rightarrow> int" where
  "rcMin a b = (if a < b then a else b)"

text \<open>\<^verbatim>\<open>struct TileCacheData\<close>: a buffer (null or its bytes) and its size.\<close>

record TileCacheData =
  td_data :: "byte list option"
  td_dataSize :: int

text \<open>\<^verbatim>\<open>rcHeightfieldLayer\<close>, with the fields the function reads (prefix \<open>hl_\<close>).\<close>

record rcHeightfieldLayer =
  hl_bmin :: vec3
  hl_bmax :: vec3
  hl_width :: int
  hl_height :: int
  hl_minx :: int
  hl_maxx :: int
  hl_miny :: int
  hl_maxy :: int
  hl_hmin :: int
  hl_hmax :: int
  hl_heights :: "byte list"
  hl_areas :: "byte list"
  hl_cons :: "byte list"

text \<open>The errors the function logs with \<^verbatim>\<open>m_ctx->log(RC_LOG_ERROR, ...)\<close>, one constructor
  per message of the source, in source order.\<close>

datatype raster_error =
    Input_mesh_is_not_specified
  | Out_of_memory_solid
  | Could_not_create_solid_heightfield
  | Out_of_memory_m_triareas
  | Out_of_memory_chf
  | Could_not_build_compact_data
  | Could_not_erode
  | Out_of_memory_lset
  | Could_not_build_heighfield_layers

text \<open>
  What the external collaborators of one call return: the Recast pipeline up to the
  layer set, and the tile cache builder. The function branches on nothing else.
  \<^item> \<open>input_mesh\<close>: \<^verbatim>\<open>m_geom\<close>, its mesh and its chunky mesh are all present.
  \<^item> \<open>ncid\<close>: the number of chunks \<^verbatim>\<open>rcGetChunksOverlappingRect\<close> finds;
    \<open>rcRasterizeTriangles i\<close>: whether chunk \<open>i\<close> could be rasterized.
  \<^item> \<open>rcBuildHeightfieldLayers\<close>: \<open>None\<close> on failure, else the layers of the layer set
    (\<^verbatim>\<open>nlayers\<close> is their number).
  \<^item> \<open>dtBuildTileCacheLayer\<close>: the status and the tile built from a header and a layer's
    heights, areas and connections; \<open>DT_TILECACHE_MAGIC\<close> and \<open>DT_TILECACHE_VERSION\<close> are
    constants of the tile cache builder.
\<close>

record raster_env =
  input_mesh :: bool
  rcAllocHeightfield :: bool
  rcCreateHeightfield :: bool
  new_triareas :: bool
  ncid :: int
  rcRasterizeTriangles :: "nat \<Rightarrow> bool"
  rcAllocCompactHeightfield :: bool
  rcBuildCompactHeightfield :: bool
  rcErodeWalkableArea :: bool
  rcAllocHeightfieldLayerSet :: bool
  rcBuildHeightfieldLayers :: "rcHeightfieldLayer list option"
  DT_TILECACHE_MAGIC :: int
  DT_TILECACHE_VERSION :: int
  dtBuildTileCacheLayer ::
    "dtTileCacheLayerHeader \<Rightarrow> byte list \<Rightarrow> byte list \<Rightarrow> byte list \<Rightarrow> dtStatus \<times> TileCacheData"

text \<open>The header of layer \<open>i\<close> of tile \<open>(tx, ty)\<close>; the casts to \<^verbatim>\<open>unsigned char\<close> and
  \<^verbatim>\<open>unsigned short\<close> truncate.\<close>

definition layer_header ::
  "raster_env \<Rightarrow> int \<Rightarrow> int \<Rightarrow> int \<Rightarrow> rcHeightfieldLayer \<Rightarrow> dtTileCacheLayerHeader" where
  "layer_header env tx' ty' i layer =
     \<lparr>lh_magic = DT_TILECACHE_MAGIC env, lh_version = DT_TILECACHE_VERSION env,
      tx = tx', ty = ty', tlayer = i,
      lh_bmin = hl_bmin layer, lh_bmax = hl_bmax layer,
      lh_hmin = word_of_int (hl_hmin layer), lh_hmax = word_of_int (hl_hmax layer),
      lh_width = word_of_int (hl_width layer), lh_height = word_of_int (hl_height layer),
      lh_minx = word_of_int (hl_minx layer), lh_maxx = word_of_int (hl_maxx layer),
      lh_miny = word_of_int (hl_miny layer), lh_maxy = word_of_int (hl_maxy layer)\<rparr>"

definition build_layer :: "raster_env \<Rightarrow> int \<Rightarrow> int \<Rightarrow> int \<Rightarrow> rcHeightfieldLayer \<Rightarrow> dtStatus \<times> TileCacheData" where
  "build_layer env tx' ty' i layer =
     dtBuildTileCacheLayer env (layer_header env tx' ty' i layer)
       (hl_heights layer) (hl_areas layer) (hl_cons layer)"

text \<open>
  The loop that builds \<^verbatim>\<open>rc.tiles\<close>, from layer index \<open>i\<close> on, over the layers it still
  has to visit. A failed build makes the whole function return 0 (\<open>None\<close>).
\<close>

fun rasterize_layers ::
  "raster_env \<Rightarrow> int \<Rightarrow> int \<Rightarrow> int \<Rightarrow> rcHeightfieldLayer list \<Rightarrow> TileCacheData list option" where
  "rasterize_layers env tx' ty' i [] = Some []"
| "rasterize_layers env tx' ty' i (layer # layers) =
     (case build_layer env tx' ty' i layer of
        (status, tile) \<Rightarrow>
          if dtStatusFailed status then None
          else map_option ((#) tile) (rasterize_layers env tx' ty' (i + 1) layers))"

text \<open>
  \<^verbatim>\<open>rasterizeTileLayers(NavMeshIndex, tx, ty, cfg, tiles, maxTiles)\<close>: the value returned,
  the elements written to the caller's \<^verbatim>\<open>tiles\<close>, and the errors logged. The first loop
  visits the layers \<^verbatim>\<open>i < rcMin(nlayers, MAX_LAYERS)\<close>, the second hands over the tiles
  \<^verbatim>\<open>i < rcMin(rc.ntiles, maxTiles)\<close>. The configuration and the index of the mesh only
  reach the external calls.
\<close>

definition rasterizeTileLayers ::
  "raster_env \<Rightarrow> int \<Rightarrow> int \<Rightarrow> int \<Rightarrow> int \<times> TileCacheData list \<times> raster_error list" where
  "rasterizeTileLayers env tx' ty' maxTiles =
     (if \<not> input_mesh env then (0, [], [Input_mesh_is_not_specified])
      else if \<not> rcAllocHeightfield env then (0, [], [Out_of_memory_solid])
      else if \<not> rcCreateHeightfield env then (0, [], [Could_not_create_solid_heightfield])
      else if \<not> new_triareas env then (0, [], [Out_of_memory_m_triareas])
      else if ncid env = 0 then (0, [], [])
      else if \<not> list_all (rcRasterizeTriangles env) [0..<nat (ncid env)] then (0, [], [])
      else if \<not> rcAllocCompactHeightfield env then (0, [], [Out_of_memory_chf])
      else if \<not> rcBuildCompactHeightfield env then (0, [], [Could_not_build_compact_data])
      else if \<not> rcErodeWalkableArea env then (0, [], [Could_not_erode])
      else if \<not> rcAllocHeightfieldLayerSet env then (0, [], [Out_of_memory_lset])
      else
        (case rcBuildHeightfieldLayers env of
           None \<Rightarrow> (0, [], [Could_not_build_heighfield_layers])
         | Some layers \<Rightarrow>
             (case rasterize_layers env tx' ty' 0
                     (take (nat (rcMin (int (length layers)) MAX_LAYERS)) layers) of
                None \<Rightarrow> (0, [], [])
              | Some rc_tiles \<Rightarrow>
                  (let out = take (nat (rcMin (int (length rc_tiles)) maxTiles)) rc_tiles
                   in (int (length out), out, [])))))"

text \<open>The external steps before the layers are partitioned all succeed.\<close>

definition pipeline_ok :: "raster_env \<Rightarrow> bool" where
  "pipeline_ok env =
     (input_mesh env \<and> rcAllocHeightfield env \<and> rcCreateHeightfield env \<and> new_triareas env
      \<and> ncid env \<noteq> 0 \<and> list_all (rcRasterizeTriangles env) [0..<nat (ncid env)]
      \<and> rcAllocCompactHeightfield env \<and> rcBuildCompactHeightfield env
      \<and> rcErodeWalkableArea env \<and> rcAllocHeightfieldLayerSet env)"

text \<open>The tiles the builder makes of the layers \<open>layers\<close>, numbered from \<open>i\<close>.\<close>

fun built_tiles :: "raster_env \<Rightarrow> int \<Rightarrow> int \<Rightarrow> int \<Rightarrow> rcHeightfieldLayer list \<Rightarrow> TileCacheData list" where
  "built_tiles env tx' ty' i [] = []"
| "built_tiles env tx' ty' i (layer # layers) =
     snd (build_layer env tx' ty' i layer) # built_tiles env tx' ty' (i + 1) layers"

fun builds_ok :: "raster_env \<Rightarrow> int \<Rightarrow> int \<Rightarrow> int \<Rightarrow> rcHeightfieldLayer list \<Rightarrow> bool" where
  "builds_ok env tx' ty' i [] = True"
| "builds_ok env tx' ty' i (layer # layers) =
     (\<not> dtStatusFailed (fst (build_layer env tx' ty' i layer))
      \<and> builds_ok env tx' ty' (i + 1) layers)"

section \<open>The persisted file\<close>

text \<open>\<^verbatim>\<open>ConvexVolume\<close> and \<^verbatim>\<open>NavHint\<close> of the input geometry, with the fields the sample
  reads.\<close>

record ConvexVolume =
  cv_verts :: "float list"
  cv_nverts :: int
  cv_hmin :: float
  cv_hmax :: float
  cv_area :: int
  cv_NavMeshIndex :: nat

record NavHint =
  nh_position :: vec3
  nh_hintType :: int
  nh_NavMeshIndex :: nat

text \<open>\<^verbatim>\<open>TILECACHESET_MAGIC\<close> is \<^verbatim>\<open>'T'<<24 | 'S'<<16 | 'E'<<8 | 'T'\<close>, with the character
  codes 84, 83 and 69.\<close>

definition TILECACHESET_MAGIC :: int where
  "TILECACHESET_MAGIC = 84 * 2 ^ 24 + 83 * 2 ^ 16 + 69 * 2 ^ 8 + 84"

definition TILECACHESET_VERSION :: int where
  "TILECACHESET_VERSION = 4"

record TileCacheSetHeader =
  sh_magic :: int
  sh_version :: int
  numTiles :: int
  meshParams :: dtNavMeshParams
  cacheParams :: dtTileCacheParams
  NumOffMeshCons :: int
  OffMeshConsOffset :: int
  NumConvexVols :: int
  ConvexVolsOffset :: int
  NumNavHints :: int
  NavHintsOffset :: int

record TileCacheExportHeader =
  magic :: int
  version :: int
  numTileCaches :: int
  tileCacheDataOffset :: int
  tileCacheOffsets :: "int list"
  NumSurfTypes :: int
  SurfTypesOffset :: int

record TileCacheTileHeader =
  tileRef :: dtCompressedTileRef
  th_dataSize :: int

text \<open>
  The file is modelled record by record: each \<^verbatim>\<open>fwrite\<close> of the sample stores one item
  and each \<^verbatim>\<open>fread\<close> asks for one item of a given kind, so how a struct is laid out in
  bytes plays no part. A position in the file is the number of items before it; the
  offsets \<^verbatim>\<open>ftell\<close> returns and the headers store are such positions. An \<^verbatim>\<open>fwrite\<close> or
  \<^verbatim>\<open>fread\<close> of zero bytes transfers nothing and is no item.
\<close>

datatype file_item =
    ExportHeader TileCacheExportHeader
  | SurfTypes "int list"
  | SetHeader TileCacheSetHeader
  | TileHeader TileCacheTileHeader
  | TileData "byte list"
  | OffMeshCon dtOffMeshConnection
  | ConvexVol ConvexVolume
  | NavHintItem NavHint

record FILE =
  content :: "file_item list"
  cursor :: nat

definition fopen_wb :: FILE where
  "fopen_wb = \<lparr>content = [], cursor = 0\<rparr>"

definition fopen_rb :: "file_item list \<Rightarrow> FILE" where
  "fopen_rb items = \<lparr>content = items, cursor = 0\<rparr>"

definition ftell :: "FILE \<Rightarrow> int" where
  "ftell f = int (cursor f)"

text \<open>\<^verbatim>\<open>fseek(fp, offset, SEEK_SET)\<close> fails on a negative offset and leaves the position.\<close>

definition fseek :: "int \<Rightarrow> FILE \<Rightarrow> FILE" where
  "fseek offset f = (if offset < 0 then f else f\<lparr>cursor := nat offset\<rparr>)"

text \<open>\<^verbatim>\<open>fwrite\<close> of one item at the position: over the item there, or at the end.\<close>

definition fwrite :: "file_item \<Rightarrow> FILE \<Rightarrow> FILE" where
  "fwrite x f =
     \<lparr>content = (if cursor f < length (content f) then (content f)[cursor f := x]
                 else content f @ [x]),
      cursor = cursor f + 1\<rparr>"

text \<open>
  The outcome of an \<^verbatim>\<open>fread\<close> that asks for one item of a kind: at the end of the file
  it fails (\<open>Eof\<close>, return code 0) and leaves the position; on an item of that kind it
  succeeds; on an item of another kind the bytes would be reinterpreted, which this
  model does not describe (\<open>Mismatch\<close>).
\<close>

datatype 'a fread_result = Eof | Got 'a FILE | Mismatch

definition fread :: "(file_item \<Rightarrow> 'a option) \<Rightarrow> FILE \<Rightarrow> 'a fread_result" where
  "fread kind f =
     (if cursor f < length (content f) then
        (case kind (content f ! cursor f) of
           Some x \<Rightarrow> Got x (f\<lparr>cursor := cursor f + 1\<rparr>)
         | None \<Rightarrow> Mismatch)
      else Eof)"

fun as_ExportHeader :: "file_item \<Rightarrow> TileCacheExportHeader option" where
  "as_ExportHeader (ExportHeader h) = Some h"
| "as_ExportHeader _ = None"

fun as_SetHeader :: "file_item \<Rightarrow> TileCacheSetHeader option" where
  "as_SetHeader (SetHeader h) = Some h"
| "as_SetHeader _ = None"

fun as_TileHeader :: "file_item \<Rightarrow> TileCacheTileHeader option" where
  "as_TileHeader (TileHeader h) = Some h"
| "as_TileHeader _ = None"

fun as_OffMeshCon :: "file_item \<Rightarrow> dtOffMeshConnection option" where
  "as_OffMeshCon (OffMeshCon c) = Some c"
| "as_OffMeshCon _ = None"

fun as_ConvexVol :: "file_item \<Rightarrow> ConvexVolume option" where
  "as_ConvexVol (ConvexVol v) = Some v"
| "as_ConvexVol _ = None"

fun as_NavHint :: "file_item \<Rightarrow> NavHint option" where
  "as_NavHint (NavHintItem h) = Some h"
| "as_NavHint _ = None"

text \<open>Reads of a given size: \<open>n\<close> ints, \<open>n\<close> bytes.\<close>

fun as_SurfTypes :: "int \<Rightarrow> file_item \<Rightarrow> int list option" where
  "as_SurfTypes n (SurfTypes xs) = (if int (length xs) = n then Some xs else None)"
| "as_SurfTypes n _ = None"

fun as_TileData :: "int \<Rightarrow> file_item \<Rightarrow> byte list option" where
  "as_TileData n (TileData bs) = (if int (length bs) = n then Some bs else None)"
| "as_TileData n _ = None"

text \<open>
  The external collaborators of \<^verbatim>\<open>SaveData\<close> and \<^verbatim>\<open>loadAll\<close>: the input geometry, the
  navigation mesh, its query object, the allocators and the mesh builder of the tile
  cache. Their code is outside the sample; each is a parameter.
  \<^item> \<open>getConvexVolumes g i\<close> and \<open>getNavHints g i\<close> are element \<open>i\<close> of the arrays the two
    getters return.
  \<^item> \<open>dtAllocNavMesh\<close>, \<open>dtAllocNavMeshQuery\<close> give a new object or null;
    \<open>dtAllocTileCache\<close>, \<open>tileCache_init_ok\<close> and \<open>dtAlloc_ok\<close> tell whether the allocation
    or initialisation succeeds.
  \<^item> \<open>navMesh_init\<close> returns the status and the mesh.
\<close>

record ('g, 'n, 'q) externals =
  getSurfaceTypes :: "'g \<Rightarrow> int list"
  SetTriangleArea :: "int \<Rightarrow> int \<Rightarrow> 'g \<Rightarrow> 'g"
  getConvexVolumeCount :: "'g \<Rightarrow> int"
  getConvexVolumes :: "'g \<Rightarrow> int \<Rightarrow> ConvexVolume"
  addConvexVolume :: "int \<Rightarrow> float list \<Rightarrow> int \<Rightarrow> float \<Rightarrow> float \<Rightarrow> int \<Rightarrow> 'g \<Rightarrow> 'g"
  getNavHintCount :: "'g \<Rightarrow> int"
  getNavHints :: "'g \<Rightarrow> int \<Rightarrow> NavHint"
  addNavHint :: "int \<Rightarrow> vec3 \<Rightarrow> int \<Rightarrow> 'g \<Rightarrow> 'g"
  dtAllocNavMesh :: "'n ptr"
  navMesh_init :: "dtNavMeshParams \<Rightarrow> 'n \<Rightarrow> dtStatus \<times> 'n"
  navMesh_getParams :: "'n \<Rightarrow> dtNavMeshParams"
  unconnectOffMeshLink :: "dtOffMeshConnection \<Rightarrow> 'n \<Rightarrow> 'n"
  dtAllocNavMeshQuery :: "'q ptr"
  navQuery_init :: "'n \<Rightarrow> int \<Rightarrow> 'q \<Rightarrow> 'q"
  dtAllocTileCache :: bool
  tileCache_init_ok :: "dtTileCacheParams \<Rightarrow> bool"
  buildNavMeshTile :: "dtCompressedTileRef \<Rightarrow> dtTileCache \<Rightarrow> 'n \<Rightarrow> 'n"
  layerHeader :: "byte list \<Rightarrow> dtTileCacheLayerHeader"
  dtAlloc_ok :: "int \<Rightarrow> bool"

section \<open>Saving (Sample_TempObstacles::SaveData)\<close>

text \<open>
  The first loop over the connections of one tile cache: a connection whose state is
  EMPTY or REMOVING is skipped; every other one is unlinked from the navigation mesh,
  set to DIRTY and counted. The result is the connection table, the mesh and the count.
\<close>

fun SaveData_unconnect ::
  "(dtOffMeshConnection \<Rightarrow> 'n \<Rightarrow> 'n) \<Rightarrow> dtOffMeshConnection list \<Rightarrow> 'n \<Rightarrow> int
   \<Rightarrow> dtOffMeshConnection list \<times> 'n \<times> int" where
  "SaveData_unconnect unconnect [] nm k = ([], nm, k)"
| "SaveData_unconnect unconnect (con # cons) nm k =
     (if state con = DT_OFFMESH_EMPTY \<or> state con = DT_OFFMESH_REMOVING then
        (case SaveData_unconnect unconnect cons nm k of
           (cons', r) \<Rightarrow> (con # cons', r))
      else
        (case SaveData_unconnect unconnect cons (unconnect con nm) (k + 1) of
           (cons', r) \<Rightarrow> (con\<lparr>state := DT_OFFMESH_DIRTY\<rparr> # cons', r)))"

text \<open>The second loop over the connections: the same test, then the \<^verbatim>\<open>fwrite\<close>.\<close>

definition SaveData_write_cons :: "dtOffMeshConnection list \<Rightarrow> FILE \<Rightarrow> FILE" where
  "SaveData_write_cons cons fp =
     fold (\<lambda>con fp. if state con = DT_OFFMESH_EMPTY \<or> state con = DT_OFFMESH_REMOVING then fp
                     else fwrite (OffMeshCon con) fp) cons fp"

text \<open>The two loops over the tile slots \<^verbatim>\<open>getTile(ii)\<close>, \<^verbatim>\<open>ii < getTileCount()\<close>. A slot
  with a null header or no data is skipped.\<close>

definition SaveData_count_tiles :: "dtTileCache \<Rightarrow> int" where
  "SaveData_count_tiles tc =
     fold (\<lambda>(ii, tile) k. if header tile = None \<or> dataSize tile = 0 then k else k + 1)
       (enumerate 0 (m_tiles tc)) 0"

definition SaveData_write_tiles :: "dtTileCache \<Rightarrow> FILE \<Rightarrow> FILE" where
  "SaveData_write_tiles tc fp =
     fold (\<lambda>(ii, tile) fp.
            if header tile = None \<or> dataSize tile = 0 then fp
            else fwrite (TileData (data tile))
                   (fwrite (TileHeader \<lparr>tileRef = getTileRef tc ii, th_dataSize = dataSize tile\<rparr>) fp))
       (enumerate 0 (m_tiles tc)) fp"

text \<open>
  The loops over the convex volumes and the hints of the geometry. Both run \<open>ii\<close> over
  the whole table and test and write element \<open>i\<close>, the index of the mesh being saved,
  as the source does.
\<close>

definition SaveData_count_vols :: "('g, 'n, 'q) externals \<Rightarrow> 'g \<Rightarrow> int \<Rightarrow> int" where
  "SaveData_count_vols ext g i =
     fold (\<lambda>ii k. if int (cv_NavMeshIndex (getConvexVolumes ext g i)) \<noteq> i then k else k + 1)
       [0..<nat (getConvexVolumeCount ext g)] 0"

definition SaveData_write_vols :: "('g, 'n, 'q) externals \<Rightarrow> 'g \<Rightarrow> int \<Rightarrow> FILE \<Rightarrow> FILE" where
  "SaveData_write_vols ext g i fp =
     fold (\<lambda>ii fp. if int (cv_NavMeshIndex (getConvexVolumes ext g i)) \<noteq> i then fp
                    else fwrite (ConvexVol (getConvexVolumes ext g i)) fp)
       [0..<nat (getConvexVolumeCount ext g)] fp"

definition SaveData_count_hints :: "('g, 'n, 'q) externals \<Rightarrow> 'g \<Rightarrow> int \<Rightarrow> int" where
  "SaveData_count_hints ext g i =
     fold (\<lambda>ii k. if int (nh_NavMeshIndex (getNavHints ext g i)) \<noteq> i then k else k + 1)
       [0..<nat (getNavHintCount ext g)] 0"

definition SaveData_write_hints :: "('g, 'n, 'q) externals \<Rightarrow> 'g \<Rightarrow> int \<Rightarrow> FILE \<Rightarrow> FILE" where
  "SaveData_write_hints ext g i fp =
     fold (\<lambda>ii fp. if int (nh_NavMeshIndex (getNavHints ext g i)) \<noteq> i then fp
                    else fwrite (NavHintItem (getNavHints ext g i)) fp)
       [0..<nat (getNavHintCount ext g)] fp"

text \<open>
  The body of the loop over the meshes, for mesh \<open>i\<close>. It threads the sample, the file
  and the file header under construction. \<^verbatim>\<open>tileCacheOffsets\<close> has 8 elements; a null or
  dangling tile cache or navigation mesh is dereferenced without a test.
\<close>

definition SaveData_mesh ::
  "('g, 'n, 'q) externals \<Rightarrow> int
   \<Rightarrow> ('g, 'n, 'q) Sample_TempObstacles \<times> FILE \<times> TileCacheExportHeader
   \<Rightarrow> (('g, 'n, 'q) Sample_TempObstacles \<times> FILE \<times> TileCacheExportHeader) option" where
  "SaveData_mesh ext i acc =
     (case acc of (s, fp, NewFileHeader) \<Rightarrow>
      if \<not> (0 \<le> i \<and> i < int (length (tileCacheOffsets NewFileHeader))) then None
      else
        (case index (m_NavMeshArray s) i of
           None \<Rightarrow> None
         | Some e \<Rightarrow>
        (case deref (m_tileCache e) of
           None \<Rightarrow> None
         | Some tc \<Rightarrow>
        (case deref (m_navMesh e) of
           None \<Rightarrow> None
         | Some nm \<Rightarrow>
        (case SaveData_unconnect (unconnectOffMeshLink ext) (m_offMeshConnections tc) nm 0 of
           (cons', nm', nOffMeshCons) \<Rightarrow>
        (let NewFileHeader' = NewFileHeader
               \<lparr>tileCacheOffsets := (tileCacheOffsets NewFileHeader)[nat i := ftell fp]\<rparr>;
             tcHeader =
               \<lparr>sh_magic = TILECACHESET_MAGIC, sh_version = TILECACHESET_VERSION,
                numTiles = SaveData_count_tiles tc,
                meshParams = navMesh_getParams ext nm',
                cacheParams = m_params tc,
                NumOffMeshCons = nOffMeshCons, OffMeshConsOffset = 0,
                NumConvexVols = SaveData_count_vols ext (m_geom s) i, ConvexVolsOffset = 0,
                NumNavHints = SaveData_count_hints ext (m_geom s) i, NavHintsOffset = 0\<rparr>;
             fp1 = fwrite (SetHeader tcHeader) fp;
             fp2 = SaveData_write_tiles tc fp1;
             tcHeader2 = tcHeader\<lparr>OffMeshConsOffset := ftell fp2\<rparr>;
             fp3 = SaveData_write_cons cons' fp2;
             tcHeader3 = tcHeader2\<lparr>ConvexVolsOffset := ftell fp3\<rparr>;
             fp4 = SaveData_write_vols ext (m_geom s) i fp3;
             tcHeader4 = tcHeader3\<lparr>NavHintsOffset := ftell fp4\<rparr>;
             fp5 = SaveData_write_hints ext (m_geom s) i fp4;
             endMeshOffset = ftell fp5;
             fp6 = fseek endMeshOffset
                     (fwrite (SetHeader tcHeader4) (fseek (ftell fp) fp5));
             e' = e\<lparr>m_navMesh := Ptr nm',
                    m_tileCache := Ptr (tc\<lparr>m_offMeshConnections := cons'\<rparr>)\<rparr>
         in Some (s\<lparr>m_NavMeshArray := (m_NavMeshArray s)[nat i := e']\<rparr>, fp6, NewFileHeader')))))))"

fun SaveData_meshes ::
  "('g, 'n, 'q) externals \<Rightarrow> nat list
   \<Rightarrow> ('g, 'n, 'q) Sample_TempObstacles \<times> FILE \<times> TileCacheExportHeader
   \<Rightarrow> (('g, 'n, 'q) Sample_TempObstacles \<times> FILE \<times> TileCacheExportHeader) option" where
  "SaveData_meshes ext [] acc = Some acc"
| "SaveData_meshes ext (i # is) acc =
     (case SaveData_mesh ext (int i) acc of
        None \<Rightarrow> None
      | Some acc' \<Rightarrow> SaveData_meshes ext is acc')"

text \<open>
  \<^verbatim>\<open>SaveData(path)\<close>. \<open>NumMeshes\<close> is what \<^verbatim>\<open>GetNumNavMeshes()\<close> returns and \<open>fopen_ok\<close>
  whether the file could be opened for writing. The result is the sample (the
  connections of the saved caches have been unlinked and set to DIRTY) and the file
  written, if any; \<open>None\<close> is undefined behaviour. The first \<^verbatim>\<open>fwrite\<close> of the file
  header stores a \<^verbatim>\<open>SurfTypesOffset\<close> that has not been assigned yet (0 here); the last
  \<^verbatim>\<open>fwrite\<close> replaces that record.
\<close>

definition SaveData ::
  "('g, 'n, 'q) externals \<Rightarrow> int \<Rightarrow> bool \<Rightarrow> ('g, 'n, 'q) Sample_TempObstacles
   \<Rightarrow> (('g, 'n, 'q) Sample_TempObstacles \<times> file_item list option) option" where
  "SaveData ext NumMeshes fopen_ok s =
     (case index (m_NavMeshArray s) 0 of
        None \<Rightarrow> None
      | Some e0 \<Rightarrow>
          if is_null (m_tileCache e0) then Some (s, None)
          else if \<not> fopen_ok then Some (s, None)
          else
            (let surfTypes = getSurfaceTypes ext (m_geom s);
                 NewFileHeader =
                   \<lparr>magic = TILECACHESET_MAGIC, version = TILECACHESET_VERSION,
                    numTileCaches = NumMeshes, tileCacheDataOffset = 0,
                    tileCacheOffsets = replicate 8 0,
                    NumSurfTypes = int (length surfTypes), SurfTypesOffset = 0\<rparr>;
                 fp1 = fwrite (ExportHeader NewFileHeader) fopen_wb;
                 NewFileHeader1 = NewFileHeader\<lparr>SurfTypesOffset := ftell fp1\<rparr>;
                 fp2 = (if surfTypes = [] then fp1 else fwrite (SurfTypes surfTypes) fp1);
                 NewFileHeader2 = NewFileHeader1\<lparr>tileCacheDataOffset := ftell fp2\<rparr>
             in case SaveData_meshes ext [0..<nat NumMeshes] (s, fp2, NewFileHeader2) of
                  None \<Rightarrow> None
                | Some (s', fp3, NewFileHeader3) \<Rightarrow>
                    Some (s', Some (content (fwrite (ExportHeader NewFileHeader3) (fseek 0 fp3))))))"

section \<open>Loading (Sample_TempObstacles::loadAll)\<close>

text \<open>The loop that hands the surface types read from the file to the geometry.\<close>

definition loadAll_surfTypes :: "('g, 'n, 'q) externals \<Rightarrow> int list \<Rightarrow> 'g \<Rightarrow> 'g" where
  "loadAll_surfTypes ext surfTypes g =
     fold (\<lambda>i g. SetTriangleArea ext (int i) (surfTypes ! i) g) [0..<length surfTypes] g"

text \<open>
  The loop that reads the tiles of one cache, \<open>n\<close> iterations left. It ends normally
  (also by \<^verbatim>\<open>break\<close>) with the file, the cache and the mesh, or it ends \<^verbatim>\<open>loadAll\<close>
  altogether when the data of a tile cannot be read. A failed read of a tile header
  goes on to the next iteration (\<^verbatim>\<open>continue\<close>).
\<close>

datatype 'n tiles_flow = TilesDone FILE dtTileCache 'n | TilesReturn dtTileCache 'n

fun loadAll_tiles ::
  "('g, 'n, 'q) externals \<Rightarrow> nat \<Rightarrow> FILE \<Rightarrow> dtTileCache \<Rightarrow> 'n \<Rightarrow> 'n tiles_flow option" where
  "loadAll_tiles ext 0 fp tc nm = Some (TilesDone fp tc nm)"
| "loadAll_tiles ext (Suc n) fp tc nm =
     (case fread as_TileHeader fp of
        Mismatch \<Rightarrow> None
      | Eof \<Rightarrow> loadAll_tiles ext n fp tc nm
      | Got tileHeader fp1 \<Rightarrow>
          if tileRef tileHeader = null_ref \<or> th_dataSize tileHeader = 0 then
            Some (TilesDone fp1 tc nm)
          else if \<not> dtAlloc_ok ext (th_dataSize tileHeader) then Some (TilesDone fp1 tc nm)
          else
            (case fread (as_TileData (th_dataSize tileHeader)) fp1 of
               Mismatch \<Rightarrow> None
             | Eof \<Rightarrow> Some (TilesReturn tc nm)
             | Got bytes fp2 \<Rightarrow>
                 (case addTile (layerHeader ext) bytes tc of
                    (addTileStatus, result, tc') \<Rightarrow>
                      (let tile = (case result of None \<Rightarrow> null_ref | Some r \<Rightarrow> r);
                           nm' = (if tile \<noteq> null_ref then buildNavMeshTile ext tile tc' nm
                                  else nm)
                       in loadAll_tiles ext n fp2 tc' nm'))))"

text \<open>
  The three loops that read the connections, the convex volumes and the hints. Their
  \<^verbatim>\<open>fread\<close>s are not checked: at the end of the file the record passed on is
  uninitialised, which is \<open>None\<close> here. A connection is added with the radius 10.
\<close>

fun loadAll_cons :: "nat \<Rightarrow> FILE \<Rightarrow> dtTileCache \<Rightarrow> (FILE \<times> dtTileCache) option" where
  "loadAll_cons 0 fp tc = Some (fp, tc)"
| "loadAll_cons (Suc n) fp tc =
     (case fread as_OffMeshCon fp of
        Got d fp' \<Rightarrow>
          loadAll_cons n fp'
            (snd (addOffMeshConnection (fst (pos d)) (snd (pos d)) 10 (area d) (flags d) (bBiDir d) tc))
      | _ \<Rightarrow> None)"

fun loadAll_vols ::
  "('g, 'n, 'q) externals \<Rightarrow> int \<Rightarrow> nat \<Rightarrow> FILE \<Rightarrow> 'g \<Rightarrow> (FILE \<times> 'g) option" where
  "loadAll_vols ext i 0 fp g = Some (fp, g)"
| "loadAll_vols ext i (Suc n) fp g =
     (case fread as_ConvexVol fp of
        Got d fp' \<Rightarrow>
          loadAll_vols ext i n fp'
            (addConvexVolume ext i (cv_verts d) (cv_nverts d) (cv_hmin d) (cv_hmax d) (cv_area d) g)
      | _ \<Rightarrow> None)"

fun loadAll_hints ::
  "('g, 'n, 'q) externals \<Rightarrow> int \<Rightarrow> nat \<Rightarrow> FILE \<Rightarrow> 'g \<Rightarrow> (FILE \<times> 'g) option" where
  "loadAll_hints ext i 0 fp g = Some (fp, g)"
| "loadAll_hints ext i (Suc n) fp g =
     (case fread as_NavHint fp of
        Got d fp' \<Rightarrow> loadAll_hints ext i n fp' (addNavHint ext i (nh_position d) (nh_hintType d) g)
      | _ \<Rightarrow> None)"

text \<open>
  The body of the loop over the tile caches of the file, for index \<open>i\<close>: either the loop
  goes on with the sample and the file (at the end of the body or at a \<^verbatim>\<open>continue\<close>), or
  \<^verbatim>\<open>loadAll\<close> returns.
\<close>

datatype 's mesh_flow = MeshNext 's FILE | MeshReturn 's

definition set_entry ::
  "('g, 'n, 'q) Sample_TempObstacles \<Rightarrow> int \<Rightarrow> ('n, 'q) NavMeshEntry \<Rightarrow> ('g, 'n, 'q) Sample_TempObstacles" where
  "set_entry s i e = s\<lparr>m_NavMeshArray := (m_NavMeshArray s)[nat i := e]\<rparr>"

definition loadAll_mesh ::
  "('g, 'n, 'q) externals \<Rightarrow> TileCacheExportHeader \<Rightarrow> int
   \<Rightarrow> ('g, 'n, 'q) Sample_TempObstacles \<Rightarrow> FILE
   \<Rightarrow> ('g, 'n, 'q) Sample_TempObstacles mesh_flow option" where
  "loadAll_mesh ext fileHeader i s fp =
     (case index (tileCacheOffsets fileHeader) i of
        None \<Rightarrow> None
      | Some offset \<Rightarrow>
     (case index (m_NavMeshArray s) i of
        None \<Rightarrow> None
      | Some e \<Rightarrow>
     (case dtFree_ptr (m_navMesh e) of
        None \<Rightarrow> None
      | Some p1 \<Rightarrow>
     (case dtFree_ptr (m_tileCache e) of
        None \<Rightarrow> None
      | Some p2 \<Rightarrow>
     (case dtFree_ptr (m_navQuery e) of
        None \<Rightarrow> None
      | Some p3 \<Rightarrow>
     (let e1 = \<lparr>m_navMesh = p1, m_tileCache = p2, m_navQuery = p3\<rparr>
      in case fread as_SetHeader (fseek offset fp) of
        Mismatch \<Rightarrow> None
      | Eof \<Rightarrow> Some (MeshNext (set_entry s i e1) (fseek offset fp))
      | Got tcHeader fp1 \<Rightarrow>
     (let e2 = e1\<lparr>m_navMesh := dtAllocNavMesh ext\<rparr>
      in case deref (m_navMesh e2) of
        None \<Rightarrow> Some (MeshNext (set_entry s i e2) fp1)
      | Some nm0 \<Rightarrow>
     (let e3 = e2\<lparr>m_tileCache := (if dtAllocTileCache ext then Ptr dtAllocTileCache_object else Null)\<rparr>
      in if is_null (m_tileCache e3) then Some (MeshNext (set_entry s i e3) fp1)
      else
     (let e4 = e3\<lparr>m_navQuery := dtAllocNavMeshQuery ext\<rparr>
      in case deref (m_navQuery e4) of
        None \<Rightarrow> Some (MeshNext (set_entry s i e4) fp1)
      | Some q0 \<Rightarrow>
     (case navMesh_init ext (meshParams tcHeader) nm0 of
        (status, nm1) \<Rightarrow>
     (let e5 = e4\<lparr>m_navMesh := Ptr nm1\<rparr>
      in if dtStatusFailed status then Some (MeshNext (set_entry s i e5) fp1)
      else if \<not> tileCache_init_ok ext (cacheParams tcHeader) then
        Some (MeshNext (set_entry s i e5) fp1)
      else
     (case loadAll_tiles ext (nat (numTiles tcHeader)) fp1
             (dtTileCache_init (cacheParams tcHeader)) nm1 of
        None \<Rightarrow> None
      | Some (TilesReturn tc nm2) \<Rightarrow>
          Some (MeshReturn (set_entry s i (e5\<lparr>m_navMesh := Ptr nm2, m_tileCache := Ptr tc\<rparr>)))
      | Some (TilesDone fp2 tc nm2) \<Rightarrow>
     (let q1 = navQuery_init ext nm2 2048 q0
      in case loadAll_cons (nat (NumOffMeshCons tcHeader)) fp2 tc of
        None \<Rightarrow> None
      | Some (fp3, tc') \<Rightarrow>
     (case loadAll_vols ext i (nat (NumConvexVols tcHeader)) fp3 (m_geom s) of
        None \<Rightarrow> None
      | Some (fp4, g1) \<Rightarrow>
     (case loadAll_hints ext i (nat (NumNavHints tcHeader)) fp4 g1 of
        None \<Rightarrow> None
      | Some (fp5, g2) \<Rightarrow>
          Some (MeshNext
                  (set_entry (s\<lparr>m_geom := g2\<rparr>) i
                     \<lparr>m_navMesh = Ptr nm2, m_tileCache = Ptr tc', m_navQuery = Ptr q1\<rparr>)
                  fp5))))))))))))))))"

fun loadAll_meshes ::
  "('g, 'n, 'q) externals \<Rightarrow> TileCacheExportHeader \<Rightarrow> nat list
   \<Rightarrow> ('g, 'n, 'q) Sample_TempObstacles \<Rightarrow> FILE
   \<Rightarrow> ('g, 'n, 'q) Sample_TempObstacles option" where
  "loadAll_meshes ext fileHeader [] s fp = Some s"
| "loadAll_meshes ext fileHeader (i # is) s fp =
     (case loadAll_mesh ext fileHeader (int i) s fp of
        None \<Rightarrow> None
      | Some (MeshReturn s') \<Rightarrow> Some s'
      | Some (MeshNext s' fp') \<Rightarrow> loadAll_meshes ext fileHeader is s' fp')"

text \<open>
  \<^verbatim>\<open>loadAll(path)\<close>. \<open>file\<close> is what \<^verbatim>\<open>fopen(path, "rb")\<close> gives: \<open>None\<close> if the file cannot
  be opened, else its items. The result is the sample after the call. \<open>None\<close> stands
  for undefined behaviour (a null or dangling pointer dereferenced, a dangling pointer
  freed, an array indexed out of bounds, an uninitialised record used after an
  unchecked \<^verbatim>\<open>fread\<close> failed) and for a read that the record-level file does not
  describe.
\<close>

definition loadAll ::
  "('g, 'n, 'q) externals \<Rightarrow> file_item list option \<Rightarrow> ('g, 'n, 'q) Sample_TempObstacles
   \<Rightarrow> ('g, 'n, 'q) Sample_TempObstacles option" where
  "loadAll ext file s =
     (case file of
        None \<Rightarrow> Some s
      | Some items \<Rightarrow>
          (case fread as_ExportHeader (fopen_rb items) of
             Mismatch \<Rightarrow> None
           | Eof \<Rightarrow> Some s
           | Got fileHeader fp \<Rightarrow>
               if magic fileHeader \<noteq> TILECACHESET_MAGIC then Some s
               else if version fileHeader \<noteq> TILECACHESET_VERSION then Some s
               else
                 (let fp1 = fseek (SurfTypesOffset fileHeader) fp
                  in if NumSurfTypes fileHeader \<le> 0 then
                       loadAll_meshes ext fileHeader [0..<nat (numTileCaches fileHeader)] s fp1
                     else
                       (case fread (as_SurfTypes (NumSurfTypes fileHeader)) fp1 of
                          Got surfTypes fp2 \<Rightarrow>
                            loadAll_meshes ext fileHeader [0..<nat (numTileCaches fileHeader)]
                              (s\<lparr>m_geom := loadAll_surfTypes ext surfTypes (m_geom s)\<rparr>) fp2
                        | _ \<Rightarrow> None))))"

section \<open>What a saved file holds\<close>

text \<open>
  The definitions of this section describe the file \<^verbatim>\<open>SaveData\<close> writes in closed form;
  the theorems below prove that \<^verbatim>\<open>SaveData\<close> writes exactly that. A connection is
  persisted when its state is neither EMPTY nor REMOVING; a tile slot is stored when it
  has a header and data.
\<close>

definition persisted :: "dtOffMeshConnection \<Rightarrow> bool" where
  "persisted con = (state con \<noteq> DT_OFFMESH_EMPTY \<and> state con \<noteq> DT_OFFMESH_REMOVING)"

definition stored :: "dtCompressedTile \<Rightarrow> bool" where
  "stored tile = (header tile \<noteq> None \<and> dataSize tile \<noteq> 0)"

definition mark_dirty :: "dtOffMeshConnection \<Rightarrow> dtOffMeshConnection" where
  "mark_dirty con = (if persisted con then con\<lparr>state := DT_OFFMESH_DIRTY\<rparr> else con)"

definition at_end :: "FILE \<Rightarrow> bool" where
  "at_end fp = (cursor fp = length (content fp))"

definition append_items :: "file_item list \<Rightarrow> FILE \<Rightarrow> FILE" where
  "append_items xs fp = \<lparr>content = content fp @ xs, cursor = cursor fp + length xs\<rparr>"

definition stored_tiles :: "dtTileCache \<Rightarrow> (nat \<times> dtCompressedTile) list" where
  "stored_tiles tc = filter (\<lambda>(ii, tile). stored tile) (enumerate 0 (m_tiles tc))"

definition tile_items :: "dtTileCache \<Rightarrow> file_item list" where
  "tile_items tc =
     concat (map (\<lambda>(ii, tile).
                    [TileHeader \<lparr>tileRef = getTileRef tc ii, th_dataSize = dataSize tile\<rparr>,
                     TileData (data tile)])
              (stored_tiles tc))"

definition persisted_cons :: "dtTileCache \<Rightarrow> dtOffMeshConnection list" where
  "persisted_cons tc = filter persisted (m_offMeshConnections tc)"

definition con_items :: "dtTileCache \<Rightarrow> file_item list" where
  "con_items tc = map (\<lambda>con. OffMeshCon (con\<lparr>state := DT_OFFMESH_DIRTY\<rparr>)) (persisted_cons tc)"

definition saved_vols :: "('g, 'n, 'q) externals \<Rightarrow> 'g \<Rightarrow> int \<Rightarrow> ConvexVolume list" where
  "saved_vols ext g i =
     map (\<lambda>ii. getConvexVolumes ext g i)
       (filter (\<lambda>ii. int (cv_NavMeshIndex (getConvexVolumes ext g i)) = i)
          [0..<nat (getConvexVolumeCount ext g)])"

definition saved_hints :: "('g, 'n, 'q) externals \<Rightarrow> 'g \<Rightarrow> int \<Rightarrow> NavHint list" where
  "saved_hints ext g i =
     map (\<lambda>ii. getNavHints ext g i)
       (filter (\<lambda>ii. int (nh_NavMeshIndex (getNavHints ext g i)) = i)
          [0..<nat (getNavHintCount ext g)])"

text \<open>The header of the section of mesh \<open>i\<close> that starts at position \<open>p\<close>, and the
  section.\<close>

definition section_header ::
  "('g, 'n, 'q) externals \<Rightarrow> 'g \<Rightarrow> int \<Rightarrow> 'n \<Rightarrow> dtTileCache \<Rightarrow> nat \<Rightarrow> TileCacheSetHeader" where
  "section_header ext g i nm tc p =
     \<lparr>sh_magic = TILECACHESET_MAGIC, sh_version = TILECACHESET_VERSION,
      numTiles = int (length (stored_tiles tc)),
      meshParams = navMesh_getParams ext (fold (unconnectOffMeshLink ext) (persisted_cons tc) nm),
      cacheParams = m_params tc,
      NumOffMeshCons = int (length (persisted_cons tc)),
      OffMeshConsOffset = int (p + 1 + length (tile_items tc)),
      NumConvexVols = int (length (saved_vols ext g i)),
      ConvexVolsOffset = int (p + 1 + length (tile_items tc) + length (con_items tc)),
      NumNavHints = int (length (saved_hints ext g i)),
      NavHintsOffset =
        int (p + 1 + length (tile_items tc) + length (con_items tc) + length (saved_vols ext g i))\<rparr>"

definition section_items ::
  "('g, 'n, 'q) externals \<Rightarrow> 'g \<Rightarrow> int \<Rightarrow> 'n \<Rightarrow> dtTileCache \<Rightarrow> nat \<Rightarrow> file_item list" where
  "section_items ext g i nm tc p =
     SetHeader (section_header ext g i nm tc p) # tile_items tc @ con_items tc
       @ map ConvexVol (saved_vols ext g i) @ map NavHintItem (saved_hints ext g i)"

text \<open>The navigation mesh and the tile cache of entry \<open>i\<close>, when both pointers are
  live.\<close>

definition entry_objects ::
  "('g, 'n, 'q) Sample_TempObstacles \<Rightarrow> int \<Rightarrow> ('n \<times> dtTileCache) option" where
  "entry_objects s i =
     (case index (m_NavMeshArray s) i of
        None \<Rightarrow> None
      | Some e \<Rightarrow>
          (case (deref (m_navMesh e), deref (m_tileCache e)) of
             (Some nm, Some tc) \<Rightarrow> Some (nm, tc)
           | _ \<Rightarrow> None))"

text \<open>The sections of the meshes \<open>is\<close>, the first one starting at position \<open>p\<close>: each with
  its position.\<close>

fun saved_sections ::
  "('g, 'n, 'q) externals \<Rightarrow> ('g, 'n, 'q) Sample_TempObstacles \<Rightarrow> nat list \<Rightarrow> nat
   \<Rightarrow> (nat \<times> file_item list) list" where
  "saved_sections ext s [] p = []"
| "saved_sections ext s (i # is) p =
     (case entry_objects s (int i) of
        None \<Rightarrow> []
      | Some (nm, tc) \<Rightarrow>
          (p, section_items ext (m_geom s) (int i) nm tc p)
            # saved_sections ext s is (p + length (section_items ext (m_geom s) (int i) nm tc p)))"

text \<open>The element of \<^verbatim>\<open>tileCacheOffsets\<close> of each mesh is the position of its section.\<close>

definition saved_offsets :: "int list \<Rightarrow> nat list \<Rightarrow> (nat \<times> file_item list) list \<Rightarrow> int list" where
  "saved_offsets offs is secs = fold (\<lambda>(i, p) offs. offs[i := int p]) (zip is (map fst secs)) offs"

text \<open>The whole file: the file header, the surface types (when there are any) and the
  sections of the meshes.\<close>

definition saved_file ::
  "('g, 'n, 'q) externals \<Rightarrow> int \<Rightarrow> ('g, 'n, 'q) Sample_TempObstacles \<Rightarrow> file_item list" where
  "saved_file ext NumMeshes s =
     (let surfTypes = getSurfaceTypes ext (m_geom s);
          pre = (if surfTypes = [] then [] else [SurfTypes surfTypes]);
          secs = saved_sections ext s [0..<nat NumMeshes] (1 + length pre)
      in ExportHeader
           \<lparr>magic = TILECACHESET_MAGIC, version = TILECACHESET_VERSION,
            numTileCaches = NumMeshes, tileCacheDataOffset = int (1 + length pre),
            tileCacheOffsets = saved_offsets (replicate 8 0) [0..<nat NumMeshes] secs,
            NumSurfTypes = int (length surfTypes), SurfTypesOffset = 1\<rparr>
         # pre @ concat (map snd secs))"

text \<open>The connections of mesh \<open>i\<close> that are persisted.\<close>

definition saved_cons :: "('g, 'n, 'q) Sample_TempObstacles \<Rightarrow> int \<Rightarrow> dtOffMeshConnection list" where
  "saved_cons s i = (case entry_objects s i of None \<Rightarrow> [] | Some (nm, tc) \<Rightarrow> persisted_cons tc)"

section \<open>What a load is compared with\<close>







text \<open>The tile cache of entry \<open>i\<close>, when there is one.\<close>

definition tileCache_of :: "('g, 'n, 'q) Sample_TempObstacles \<Rightarrow> int \<Rightarrow> dtTileCache option" where
  "tileCache_of s i =
     (case index (m_NavMeshArray s) i of
        None \<Rightarrow> None
      | Some e \<Rightarrow> deref (m_tileCache e))"

section \<open>What a load builds\<close>









text \<open>Saving a sample \<open>s\<close> and loading the file written into a sample \<open>s0\<close>.\<close>

definition save_then_load ::
  "('g, 'n, 'q) externals \<Rightarrow> int \<Rightarrow> ('g, 'n, 'q) Sample_TempObstacles
   \<Rightarrow> ('g, 'n, 'q) Sample_TempObstacles \<Rightarrow> ('g, 'n, 'q) Sample_TempObstacles option" where
  "save_then_load ext NumMeshes s s0 =
     (case SaveData ext NumMeshes True s of
        Some (s1, Some items) \<Rightarrow> loadAll ext (Some items) s0
      | _ \<Rightarrow> None)"

section \<open>A concrete sample\<close>

text \<open>
  A small instance of the external collaborators and of the sample, on which the
  theorems below are evaluated. The geometry is a record of its three tables; the
  navigation mesh is a counter of the tiles built into it; the layer header of a tile
  is read from its first three bytes.
\<close>

record example_geom =
  eg_surfaceTypes :: "int list"
  eg_volumes :: "ConvexVolume list"
  eg_hints :: "NavHint list"

definition example_volume :: ConvexVolume where
  "example_volume =
     \<lparr>cv_verts = [], cv_nverts = 0, cv_hmin = 0, cv_hmax = 0, cv_area = 7, cv_NavMeshIndex = 0\<rparr>"

definition example_hint :: NavHint where
  "example_hint = \<lparr>nh_position = zero_vec3, nh_hintType = 0, nh_NavMeshIndex = 0\<rparr>"

definition example_layerHeader :: "byte list \<Rightarrow> dtTileCacheLayerHeader" where
  "example_layerHeader bs =
     \<lparr>lh_magic = 0, lh_version = 0,
      tx = uint (bs ! 0), ty = uint (bs ! 1), tlayer = uint (bs ! 2),
      lh_bmin = zero_vec3, lh_bmax = zero_vec3, lh_hmin = 0, lh_hmax = 0,
      lh_width = 0, lh_height = 0, lh_minx = 0, lh_maxx = 0, lh_miny = 0, lh_maxy = 0\<rparr>"

definition example_navMeshParams :: dtNavMeshParams where
  "example_navMeshParams =
     \<lparr>nm_orig = zero_vec3, nm_tileWidth = 48, nm_tileHeight = 48, nm_maxTiles = 64,
      nm_maxPolys = 128\<rparr>"

definition example_ext :: "(example_geom, nat, nat) externals" where
  "example_ext =
     \<lparr>getSurfaceTypes = eg_surfaceTypes,
      SetTriangleArea = (\<lambda>i v g. g\<lparr>eg_surfaceTypes := (eg_surfaceTypes g)[nat i := v]\<rparr>),
      getConvexVolumeCount = (\<lambda>g. int (length (eg_volumes g))),
      getConvexVolumes =
        (\<lambda>g i. if 0 \<le> i \<and> nat i < length (eg_volumes g) then eg_volumes g ! nat i
               else example_volume),
      addConvexVolume =
        (\<lambda>i vs n lo hi a g.
           g\<lparr>eg_volumes := eg_volumes g
                @ [\<lparr>cv_verts = vs, cv_nverts = n, cv_hmin = lo, cv_hmax = hi, cv_area = a,
                    cv_NavMeshIndex = nat i\<rparr>]\<rparr>),
      getNavHintCount = (\<lambda>g. int (length (eg_hints g))),
      getNavHints =
        (\<lambda>g i. if 0 \<le> i \<and> nat i < length (eg_hints g) then eg_hints g ! nat i
               else example_hint),
      addNavHint =
        (\<lambda>i p t g.
           g\<lparr>eg_hints := eg_hints g
                @ [\<lparr>nh_position = p, nh_hintType = t, nh_NavMeshIndex = nat i\<rparr>]\<rparr>),
      dtAllocNavMesh = Ptr 0,
      navMesh_init = (\<lambda>p n. (DT_SUCCESS, n)),
      navMesh_getParams = (\<lambda>n. example_navMeshParams),
      unconnectOffMeshLink = (\<lambda>c n. n),
      dtAllocNavMeshQuery = Ptr 0,
      navQuery_init = (\<lambda>n k q. q),
      dtAllocTileCache = True,
      tileCache_init_ok = (\<lambda>p. True),
      buildNavMeshTile = (\<lambda>r tc n. n + 1),
      layerHeader = example_layerHeader,
      dtAlloc_ok = (\<lambda>n. True)\<rparr>"

definition example_params :: dtTileCacheParams where
  "example_params =
     zero_dtTileCacheParams\<lparr>tc_maxTiles := 4, tc_maxObstacles := 2, tc_maxOffMeshConnections := 4\<rparr>"

definition example_con :: "float \<Rightarrow> OffMeshState \<Rightarrow> dtOffMeshConnection" where
  "example_con x st =
     \<lparr>pos = ((x, 0, 0), (x, 1, 0)), rad = 16, area = 3, flags = 5, bBiDir = True, state = st\<rparr>"

text \<open>A tile cache with three tiles at \<open>(0,0)\<close>, \<open>(0,1)\<close> and \<open>(1,0)\<close>, two live
  connections, one being removed, one free connection slot, one processed obstacle
  and one still being processed.\<close>

definition example_cache :: dtTileCache where
  "example_cache =
     (let tc0 = dtTileCache_init example_params;
          tc1 = snd (snd (addTile example_layerHeader [0, 0, 0, 17] tc0));
          tc2 = snd (snd (addTile example_layerHeader [0, 1, 0, 18, 19] tc1));
          tc3 = snd (snd (addTile example_layerHeader [1, 0, 0, 20] tc2))
      in tc3\<lparr>m_offMeshConnections :=
                [example_con 1 DT_OFFMESH_DIRTY, example_con 2 DT_OFFMESH_REMOVING,
                 free_offMeshConnection, example_con 4 DT_OFFMESH_DIRTY],
              m_nextFreeOffMeshConnection := [2],
              m_obstacles := [free_obstacle\<lparr>ob_state := DT_OBSTACLE_PROCESSED\<rparr>,
                              free_obstacle\<lparr>ob_state := DT_OBSTACLE_PROCESSING\<rparr>],
              m_nextFreeObstacle := []\<rparr>)"

definition null_entry :: "('n, 'q) NavMeshEntry" where
  "null_entry = \<lparr>m_navMesh = Null, m_tileCache = Null, m_navQuery = Null\<rparr>"

definition example_sample :: "(example_geom, nat, nat) Sample_TempObstacles" where
  "example_sample =
     \<lparr>m_geom = \<lparr>eg_surfaceTypes = [1, 2], eg_volumes = [example_volume], eg_hints = []\<rparr>,
      m_NavMeshArray =
        [\<lparr>m_navMesh = Ptr 5, m_tileCache = Ptr example_cache, m_navQuery = Ptr 0\<rparr>,
         null_entry,
         \<lparr>m_navMesh = Ptr 6, m_tileCache = Ptr example_cache, m_navQuery = Ptr 0\<rparr>]\<rparr>"

text \<open>A sample that holds no navigation mesh yet.\<close>

definition fresh_sample :: "(example_geom, nat, nat) Sample_TempObstacles" where
  "fresh_sample =
     \<lparr>m_geom = \<lparr>eg_surfaceTypes = [0, 0], eg_volumes = [], eg_hints = []\<rparr>,
      m_NavMeshArray = [null_entry, null_entry, null_entry]\<rparr>"

text \<open>An update of a tile cache that processes its obstacles, for \<^verbatim>\<open>handleUpdate\<close>.\<close>

definition example_update :: "float \<Rightarrow> dtTileCache \<Rightarrow> nat \<Rightarrow> dtTileCache \<times> nat" where
  "example_update dt tc nm =
     (tc\<lparr>m_obstacles := map (\<lambda>ob. if ob_state ob = DT_OBSTACLE_PROCESSING
                                     then ob\<lparr>ob_state := DT_OBSTACLE_PROCESSED\<rparr> else ob)
                            (m_obstacles tc)\<rparr>,
      nm + 1)"

text \<open>A file header whose magic differs from the expected one in its last byte.\<close>

definition example_bad_header :: TileCacheExportHeader where
  "example_bad_header =
     \<lparr>magic = TILECACHESET_MAGIC + 1, version = TILECACHESET_VERSION,
      numTileCaches = 1, tileCacheDataOffset = 2, tileCacheOffsets = [2, 0, 0, 0, 0, 0, 0, 0],
      NumSurfTypes = 2, SurfTypesOffset = 1\<rparr>"

text \<open>A pipeline that succeeds and finds \<open>n\<close> floors in the tile; the builder stores the
  layer index as the only byte of a tile.\<close>

definition example_layer :: rcHeightfieldLayer where
  "example_layer =
     \<lparr>hl_bmin = zero_vec3, hl_bmax = zero_vec3, hl_width = 48, hl_height = 48,
      hl_minx = 0, hl_maxx = 47, hl_miny = 0, hl_maxy = 47, hl_hmin = 0, hl_hmax = 10,
      hl_heights = [], hl_areas = [], hl_cons = []\<rparr>"

definition example_raster_env :: "nat \<Rightarrow> raster_env" where
  "example_raster_env n =
     \<lparr>input_mesh = True, rcAllocHeightfield = True, rcCreateHeightfield = True,
      new_triareas = True, ncid = 1, rcRasterizeTriangles = (\<lambda>i. True),
      rcAllocCompactHeightfield = True, rcBuildCompactHeightfield = True,
      rcErodeWalkableArea = True, rcAllocHeightfieldLayerSet = True,
      rcBuildHeightfieldLayers = Some (replicate n example_layer),
      DT_TILECACHE_MAGIC = 0, DT_TILECACHE_VERSION = 1,
      dtBuildTileCacheLayer =
        (\<lambda>h hs as cs. (DT_SUCCESS, \<lparr>td_data = Some [word_of_int (tlayer h)], td_dataSize = 1\<rparr>))\<rparr>"

section \<open>Properties of the scratch allocator\<close>

lemma alloc_null_unchanged: "fst (alloc n a) = None \<Longrightarrow> snd (alloc n a) = a"
  by (auto simp: alloc_def split: option.splits if_splits)

lemma alloc_null_iff:
  "fst (alloc n a) = None \<longleftrightarrow> buffer a = None \<or> top a + n > capacity a"
  by (auto simp: alloc_def split: option.splits)

text \<open>As long as \<^verbatim>\<open>top+size\<close> does not wrap, the test of \<^verbatim>\<open>alloc\<close> compares the true sum
  with the capacity.\<close>

lemma alloc_null_iff_no_wrap:
  fixes a :: "'w::len word LinearAllocator"
  assumes "unat (top a) + unat n < 2 ^ LENGTH('w)"
  shows "fst (alloc n a) = None
         \<longleftrightarrow> buffer a = None \<or> unat (top a) + unat n > unat (capacity a)"
proof -
  from assms have "unat (top a + n) = unat (top a) + unat n"
    by (simp add: unat_add_lem)
  then show ?thesis
    by (simp add: alloc_null_iff word_less_nat_alt)
qed

lemma alloc_top_le:
  "top a \<le> capacity a \<Longrightarrow> top (snd (alloc n a)) \<le> capacity (snd (alloc n a))"
  by (auto simp: alloc_def split: option.splits)

lemma alloc_keeps:
  "capacity (snd (alloc n a)) = capacity a"
  "high (snd (alloc n a)) = high a"
  "buffer (snd (alloc n a)) = buffer a"
  by (auto simp: alloc_def split: option.splits)

lemma alloc_step_capacity: "capacity (alloc_step a c) = capacity a"
  by (cases c) (simp_all add: alloc_keeps reset_def free_def)

lemma alloc_step_inv:
  assumes "top a \<le> capacity a" and "high a \<le> capacity a"
  shows "top (alloc_step a c) \<le> capacity a \<and> high (alloc_step a c) \<le> capacity a"
proof (cases c)
  case (Alloc n)
  with assms alloc_top_le [of a n] show ?thesis by (simp add: alloc_keeps)
next
  case Reset
  with assms show ?thesis by (auto simp: reset_def dtMax_def)
next
  case (Free p)
  with assms show ?thesis by (simp add: free_def)
qed

lemma alloc_step_high_mono: "high a \<le> high (alloc_step a c)"
  by (cases c) (auto simp: alloc_keeps reset_def free_def dtMax_def)

lemma run_calls_inv:
  "top a \<le> capacity a \<Longrightarrow> high a \<le> capacity a \<Longrightarrow>
   top (run_calls a cs) \<le> capacity a \<and> high (run_calls a cs) \<le> capacity a
   \<and> capacity (run_calls a cs) = capacity a"
  unfolding run_calls_def
proof (induction cs arbitrary: a)
  case Nil
  then show ?case by simp
next
  case (Cons c cs)
  from alloc_step_inv [OF Cons.prems, of c] alloc_step_capacity [of a c]
    Cons.IH [of "alloc_step a c"]
  show ?case by simp
qed

lemma run_calls_high_mono: "high a \<le> high (run_calls a cs)"
  unfolding run_calls_def
proof (induction cs arbitrary: a)
  case Nil
  then show ?case by simp
next
  case (Cons c cs)
  have "high a \<le> high (alloc_step a c)" by (rule alloc_step_high_mono)
  also have "\<dots> \<le> high (foldl alloc_step (alloc_step a c) cs)" by (rule Cons.IH)
  finally show ?case by simp
qed

text \<open>
  C6, evaluated at the failing input. On a 64-bit \<^verbatim>\<open>size_t\<close>, an allocator of capacity
  32000 (the size the sample constructs) with one byte outstanding is asked for
  \<open>2\<^sup>6\<^sup>4 - 1\<close> bytes. The outstanding size plus the request exceeds the capacity, yet
  \<^verbatim>\<open>top+size\<close> wraps to 0, the test passes, a non-null pointer is returned and
  \<^verbatim>\<open>top\<close> falls back to 0.
\<close>

theorem alloc_wraps_past_capacity:
  "let a0 = LinearAllocator_new (\<lambda>n. Some 4096) (32000 :: 64 word);
       a1 = snd (alloc 1 a0)
   in top a1 = 1 \<and> capacity a1 = 32000
      \<and> unat (top a1) + unat (18446744073709551615 :: 64 word) > unat (capacity a1)
      \<and> alloc 18446744073709551615 a1 = (Some 4097, a1\<lparr>top := 0\<rparr>)"
  by (simp add: LinearAllocator_new_def resize_def alloc_def Let_def)

text \<open>
  The counters of the allocator. Whatever sequence of \<^verbatim>\<open>alloc\<close>, \<^verbatim>\<open>reset\<close> and \<^verbatim>\<open>free\<close>
  calls \<open>cs\<close> has run on an allocator constructed with capacity \<open>cap\<close> (and whatever the
  permanent allocator returned for its buffer), the fields \<^verbatim>\<open>top\<close> and \<^verbatim>\<open>high\<close> are at
  most \<open>cap\<close> and the capacity is still \<open>cap\<close>; \<^verbatim>\<open>high\<close> never decreases over any further
  calls \<open>ds\<close>; and \<^verbatim>\<open>reset\<close> keeps \<^verbatim>\<open>high\<close> (raising it to \<^verbatim>\<open>top\<close> when that is larger)
  while setting \<^verbatim>\<open>top\<close> to 0.
\<close>

lemma counters_bounded:
  fixes cap :: "'w::len word"
  shows "let a = run_calls (LinearAllocator_new dtAlloc cap) cs
         in top a \<le> cap \<and> high a \<le> cap \<and> capacity a = cap
            \<and> high a \<le> high (run_calls a ds)
            \<and> high (reset a) = dtMax (high a) (top a)
            \<and> high a \<le> high (reset a) \<and> top (reset a) = 0"
proof -
  define a where "a = run_calls (LinearAllocator_new dtAlloc cap) cs"
  let ?a0 = "LinearAllocator_new dtAlloc cap"
  have init: "top ?a0 \<le> capacity ?a0" "high ?a0 \<le> capacity ?a0" "capacity ?a0 = cap"
    by (simp_all add: LinearAllocator_new_def resize_def)
  from run_calls_inv [OF init(1,2), of cs] init(3)
  have "top a \<le> cap \<and> high a \<le> cap \<and> capacity a = cap"
    by (simp add: a_def)
  moreover have "high a \<le> high (run_calls a ds)"
    by (rule run_calls_high_mono)
  moreover have "high (reset a) = dtMax (high a) (top a) \<and> high a \<le> high (reset a)
      \<and> top (reset a) = 0"
    by (auto simp: reset_def dtMax_def)
  ultimately show ?thesis
    unfolding Let_def a_def [symmetric] by blast
qed

text \<open>The allocator of a usage run is the allocator of the plain run.\<close>

lemma usage_step_fst: "fst (usage_step (a, u) c) = alloc_step a c"
  by (cases c) simp_all

lemma usage_fst: "fst (foldl usage_step (a, u) cs) = run_calls a cs"
  unfolding run_calls_def
proof (induction cs arbitrary: a u)
  case Nil
  then show ?case by simp
next
  case (Cons c cs)
  obtain a' u' where st: "usage_step (a, u) c = (a', u')"
    by (cases "usage_step (a, u) c")
  with usage_step_fst [of a u c] have "a' = alloc_step a c" by simp
  with st Cons.IH [of a' u'] show ?case by simp
qed

text \<open>
  As long as no sum \<^verbatim>\<open>top+size\<close> wraps, the field \<^verbatim>\<open>top\<close> is the outstanding size, and
  neither the outstanding size nor its peak exceeds the capacity.
\<close>

lemma alloc_top_no_wrap:
  fixes a :: "'w::len word LinearAllocator"
  assumes "unat (top a) + unat n < 2 ^ LENGTH('w)"
  shows "unat (top (snd (alloc n a)))
         = (if fst (alloc n a) = None then unat (top a) else unat (top a) + unat n)"
  using assms by (auto simp: alloc_def unat_add_lem split: option.splits)

lemma usage_inv:
  fixes a :: "'w::len word LinearAllocator"
  assumes "no_wrap a cs" and "outstanding u = unat (top a)"
    and "top a \<le> capacity a" and "peak u \<le> unat (capacity a)"
  shows "outstanding (snd (foldl usage_step (a, u) cs)) = unat (top (run_calls a cs))
       \<and> peak (snd (foldl usage_step (a, u) cs)) \<le> unat (capacity a)"
  using assms unfolding run_calls_def
proof (induction a cs arbitrary: u rule: no_wrap.induct)
  case (1 a)
  then show ?case by simp
next
  case (2 a n cs)
  from "2.prems" have nw: "unat (top a) + unat n < 2 ^ LENGTH('w)"
    and rest: "no_wrap (snd (alloc n a)) cs"
    by simp_all
  let ?a = "snd (alloc n a)"
  let ?u = "snd (usage_step (a, u) (Alloc n))"
  have o: "outstanding ?u = unat (top ?a)"
    using "2.prems"(2) alloc_top_no_wrap [OF nw] by simp
  have t: "top ?a \<le> capacity ?a"
    using "2.prems"(3) by (rule alloc_top_le)
  then have "unat (top ?a) \<le> unat (capacity a)"
    by (simp add: alloc_keeps word_le_nat_alt)
  with o "2.prems"(4) have p: "peak ?u \<le> unat (capacity ?a)"
    by (auto simp: alloc_keeps)
  from "2.IH" [OF rest o t p] show ?case by (simp add: alloc_keeps)
next
  case (3 a cs)
  from "3.prems" have rest: "no_wrap (reset a) cs" by simp
  have o: "outstanding (u\<lparr>outstanding := 0\<rparr>) = unat (top (reset a))"
    by (simp add: reset_def)
  have t: "top (reset a) \<le> capacity (reset a)"
    by (simp add: reset_def)
  have p: "peak (u\<lparr>outstanding := 0\<rparr>) \<le> unat (capacity (reset a))"
    using "3.prems"(4) by (simp add: reset_def)
  from "3.IH" [OF rest o t p] show ?case by (simp add: reset_def)
next
  case (4 a p cs)
  from "4.prems" have rest: "no_wrap (free p a) cs" by simp
  have o: "outstanding u = unat (top (free p a))"
    using "4.prems"(2) by (simp add: free_def)
  have t: "top (free p a) \<le> capacity (free p a)"
    using "4.prems"(3) by (simp add: free_def)
  have pk: "peak u \<le> unat (capacity (free p a))"
    using "4.prems"(4) by (simp add: free_def)
  from "4.IH" [OF rest o t pk] show ?case by (simp add: free_def)
qed

lemma usage_bounded_without_wrap:
  fixes cap :: "'w::len word"
  assumes "no_wrap (LinearAllocator_new dtAlloc cap) cs"
  shows "outstanding (run_usage (LinearAllocator_new dtAlloc cap) cs)
           = unat (top (run_calls (LinearAllocator_new dtAlloc cap) cs))
       \<and> outstanding (run_usage (LinearAllocator_new dtAlloc cap) cs) \<le> unat cap
       \<and> peak (run_usage (LinearAllocator_new dtAlloc cap) cs) \<le> unat cap"
proof -
  let ?a0 = "LinearAllocator_new dtAlloc cap"
  let ?u0 = "\<lparr>outstanding = 0, peak = 0\<rparr>"
  have init: "outstanding ?u0 = unat (top ?a0)" "top ?a0 \<le> capacity ?a0"
    "peak ?u0 \<le> unat (capacity ?a0)" "capacity ?a0 = cap" "high ?a0 \<le> capacity ?a0"
    by (simp_all add: LinearAllocator_new_def resize_def)
  from run_calls_inv [OF init(2,5), of cs] init(4)
  have tc: "top (run_calls ?a0 cs) \<le> cap"
    by simp
  from usage_inv [OF assms init(1,2,3)] init(4) tc show ?thesis
    by (simp add: run_usage_def word_le_nat_alt)
qed

text \<open>
  C7, evaluated at the failing input. On a 64-bit \<^verbatim>\<open>size_t\<close>, an allocator of capacity
  32000 whose buffer is at address 4096 grants a request of 1 byte and then a request of
  \<open>2\<^sup>6\<^sup>4 - 1\<close> bytes, because \<^verbatim>\<open>top+size\<close> wraps to 0. The outstanding size is then
  \<open>2\<^sup>6\<^sup>4\<close> bytes, more than the capacity; \<^verbatim>\<open>top\<close> is 0, and after a \<^verbatim>\<open>reset\<close> the
  high-water mark \<^verbatim>\<open>high\<close> is 0 although the peak of the outstanding size was \<open>2\<^sup>6\<^sup>4\<close>.
\<close>

theorem usage_exceeds_capacity:
  "let a0 = LinearAllocator_new (\<lambda>n. Some 4096) (32000 :: 64 word);
       cs = [Alloc 1, Alloc 18446744073709551615]
   in fst (alloc 1 a0) = Some 4096
      \<and> fst (alloc 18446744073709551615 (snd (alloc 1 a0))) = Some 4097
      \<and> outstanding (run_usage a0 cs) = 18446744073709551616
      \<and> unat (capacity (run_calls a0 cs)) = 32000
      \<and> unat (capacity (run_calls a0 cs)) < outstanding (run_usage a0 cs)
      \<and> top (run_calls a0 cs) = 0
      \<and> peak (run_usage a0 (cs @ [Reset])) = 18446744073709551616
      \<and> high (run_calls a0 (cs @ [Reset])) = 0"
  by (simp add: LinearAllocator_new_def resize_def alloc_def Let_def run_usage_def
      run_calls_def reset_def dtMax_def)

section \<open>Properties of the layer codec\<close>

text \<open>\<^verbatim>\<open>compress\<close> reports success whatever the library returns.\<close>

lemma compress_status: "fst (compress fastlz_compress buf) = DT_SUCCESS"
  by (simp add: compress_def Let_def)

text \<open>\<^verbatim>\<open>decompress\<close> reports failure exactly when the library returns a negative
  number; a return of 0 is a success with an output of length 0.\<close>

lemma decompress_status:
  "fst (decompress fastlz_decompress compressed maxBufferSize) = DT_FAILURE
   \<longleftrightarrow> fst (fastlz_decompress compressed maxBufferSize) < 0"
  by (simp add: decompress_def Let_def)

lemma decompress_size:
  "snd (snd (decompress fastlz_decompress compressed maxBufferSize))
   = fst (fastlz_decompress compressed maxBufferSize)"
  by (simp add: decompress_def Let_def)

section \<open>Properties of the rasterizer\<close>

lemma rasterize_layers_length:
  "rasterize_layers env tx' ty' i layers = Some ts \<Longrightarrow> length ts = length layers"
  by (induction layers arbitrary: i ts) (auto split: prod.splits if_splits)

lemma rasterize_layers_built:
  "builds_ok env tx' ty' i layers \<Longrightarrow>
   rasterize_layers env tx' ty' i layers = Some (built_tiles env tx' ty' i layers)"
  by (induction layers arbitrary: i) (auto split: prod.splits)

lemma length_built_tiles: "length (built_tiles env tx' ty' i layers) = length layers"
  by (induction layers arbitrary: i) auto

text \<open>
  C8. The value returned is the number of tiles handed to the caller, and that number
  is at most \<open>min(MAX_LAYERS, maxTiles)\<close> (for a negative \<^verbatim>\<open>maxTiles\<close> nothing is handed
  over and 0 is returned). When the pipeline succeeds and the builder succeeds on the
  first \<open>MAX_LAYERS\<close> layers, the tiles handed over are the first \<^verbatim>\<open>maxTiles\<close> of the
  tiles built from the first \<open>MAX_LAYERS\<close> layers and no error is logged, however many
  layers the layer set has: the layers from index 32 on are never visited.
\<close>

theorem rasterizeTileLayers_caps_layers:
  assumes "rasterizeTileLayers env tx' ty' maxTiles = (n, tiles, errors)"
  shows "n = int (length tiles)
       \<and> length tiles \<le> nat (rcMin MAX_LAYERS maxTiles)
       \<and> (0 \<le> maxTiles \<longrightarrow> n \<le> rcMin MAX_LAYERS maxTiles)
       \<and> (pipeline_ok env \<and> rcBuildHeightfieldLayers env = Some layers
            \<and> builds_ok env tx' ty' 0 (take (nat MAX_LAYERS) layers)
          \<longrightarrow> tiles = take (nat maxTiles) (built_tiles env tx' ty' 0 (take (nat MAX_LAYERS) layers))
              \<and> errors = [])"
proof -
  have len: "n = int (length tiles)"
    using assms
    by (auto simp: rasterizeTileLayers_def Let_def split: if_splits option.splits)
  have bound: "n \<le> rcMin MAX_LAYERS maxTiles" if "0 \<le> maxTiles"
    using assms that
    by (auto simp: rasterizeTileLayers_def Let_def rcMin_def MAX_LAYERS_def
        dest!: rasterize_layers_length split: if_splits option.splits)
  have full: "tiles = take (nat maxTiles) (built_tiles env tx' ty' 0 (take (nat MAX_LAYERS) layers))
      \<and> errors = []"
    if ok: "pipeline_ok env" and ls: "rcBuildHeightfieldLayers env = Some layers"
      and b: "builds_ok env tx' ty' 0 (take (nat MAX_LAYERS) layers)"
  proof -
    have tk: "take (nat (rcMin (int (length layers)) MAX_LAYERS)) layers = take (nat MAX_LAYERS) layers"
      by (simp add: rcMin_def MAX_LAYERS_def)
    have tk2: "take (nat (rcMin (int (length xs)) maxTiles)) xs = take (nat maxTiles) xs" for xs :: "TileCacheData list"
      by (simp add: rcMin_def)
    from assms ok ls rasterize_layers_built[OF b] show ?thesis
      by (simp add: rasterizeTileLayers_def pipeline_ok_def tk Let_def tk2)
  qed
  have count: "length tiles \<le> nat (rcMin MAX_LAYERS maxTiles)"
    using assms
    by (auto simp: rasterizeTileLayers_def Let_def rcMin_def MAX_LAYERS_def
        dest!: rasterize_layers_length split: if_splits option.splits)
  from len count bound full show ?thesis by blast
qed

theorem rasterizeTileLayers_caps_layers_witness:
  "fst (rasterizeTileLayers (example_raster_env 33) 2 3 32) = 32
   \<and> map td_data (fst (snd (rasterizeTileLayers (example_raster_env 33) 2 3 32)))
       = map (\<lambda>i. Some [of_nat i]) [0..<32]
   \<and> snd (snd (rasterizeTileLayers (example_raster_env 33) 2 3 32)) = []
   \<and> rcMin MAX_LAYERS 32 = 32"
proof -
  obtain n tiles errors where
    run: "rasterizeTileLayers (example_raster_env 33) 2 3 32 = (n, tiles, errors)"
    by (cases "rasterizeTileLayers (example_raster_env 33) 2 3 32") auto
  have ok: "pipeline_ok (example_raster_env 33)"
    by (simp add: pipeline_ok_def example_raster_env_def)
  have ls: "rcBuildHeightfieldLayers (example_raster_env 33) = Some (replicate 33 example_layer)"
    by (simp add: example_raster_env_def)
  have b: "builds_ok (example_raster_env 33) 2 3 0 (take (nat MAX_LAYERS) (replicate 33 example_layer))"
    by code_simp
  have ts: "map td_data (take (nat 32) (built_tiles (example_raster_env 33) 2 3 0
        (take (nat MAX_LAYERS) (replicate 33 example_layer))))
      = map (\<lambda>i. Some [of_nat i]) [0..<32]"
    by code_simp
  note all = rasterizeTileLayers_caps_layers [OF run, of "replicate 33 example_layer"]
  from all have n: "n = int (length tiles)"
    by blast
  from all ok ls b have tiles: "tiles = take (nat 32) (built_tiles (example_raster_env 33) 2 3 0
        (take (nat MAX_LAYERS) (replicate 33 example_layer)))" and errors: "errors = []"
    by blast+
  from ts have "length (map td_data tiles) = length (map (\<lambda>i. Some [of_nat i :: byte]) [0..<32])"
    unfolding tiles by (rule arg_cong)
  then have "n = 32"
    unfolding n by simp
  with run ts errors show ?thesis
    unfolding tiles by (simp add: rcMin_def MAX_LAYERS_def)
qed

section \<open>Properties of the per-frame update\<close>

lemma index_update_other: "j \<noteq> int k \<Longrightarrow> index (xs[k := x]) j = index xs j"
  by (auto simp: index_def nat_eq_iff)

text \<open>
  Started at any index \<open>i0\<close> up to \<open>i\<close>, the loop never reaches an index from \<open>i\<close> on
  when entry \<open>i\<close> has a null navigation mesh or tile cache.
\<close>

lemma handleUpdate_loop_skips:
  assumes "handleUpdate_loop update dt NumMeshes i0 arr = Some (arr', calls)"
    and "i0 \<le> i" and "i < NumMeshes" and "0 \<le> i0"
    and "index arr i = Some e"
    and "is_null (m_navMesh e) \<or> is_null (m_tileCache e)"
  shows "length arr' = length arr \<and> (\<forall>j\<ge>i. j \<notin> set calls \<and> index arr' j = index arr j)"
  using assms
proof (induction update dt NumMeshes i0 arr arbitrary: arr' calls rule: handleUpdate_loop.induct)
  case (1 update dt NumMeshes i0 arr)
  from "1.prems" have lt: "i0 < NumMeshes" by simp
  show ?case
  proof (cases "i0 = i")
    case True
    with "1.prems" lt have "arr' = arr \<and> calls = []"
      by (subst (asm) handleUpdate_loop.simps) (auto split: if_splits)
    then show ?thesis by simp
  next
    case False
    with "1.prems" have less: "i0 < i" by simp
    from "1.prems"(1) lt obtain e0 where e0: "index arr i0 = Some e0"
      by (subst (asm) handleUpdate_loop.simps) (auto split: option.splits)
    show ?thesis
    proof (cases "is_null (m_navMesh e0) \<or> is_null (m_tileCache e0)")
      case True
      with "1.prems"(1) lt e0 have "arr' = arr \<and> calls = []"
        by (subst (asm) handleUpdate_loop.simps) (auto split: if_splits)
      then show ?thesis by simp
    next
      case nonnull: False
      from "1.prems"(1) lt e0 nonnull obtain tc nm where d: "deref (m_tileCache e0) = Some tc" "deref (m_navMesh e0) = Some nm"
        by (subst (asm) handleUpdate_loop.simps) (auto split: option.splits)
      obtain tc' nm' where u: "update dt tc nm = (tc', nm')" by (cases "update dt tc nm")
      define arr1 where "arr1 = arr[nat i0 := e0\<lparr>m_navMesh := Ptr nm', m_tileCache := Ptr tc'\<rparr>]"
      from "1.prems"(1) lt e0 nonnull d u obtain calls1 where
        rec: "handleUpdate_loop update dt NumMeshes (i0 + 1) arr1 = Some (arr', calls1)"
        and calls: "calls = i0 # calls1"
        by (subst (asm) handleUpdate_loop.simps) (auto simp: arr1_def split: option.splits)
      have idx: "\<And>j. j \<ge> i \<Longrightarrow> index arr1 j = index arr j"
        using less "1.prems"(4) unfolding arr1_def by (intro index_update_other) auto
      from nonnull have nn: "\<not> is_null (m_navMesh e0)" "\<not> is_null (m_tileCache e0)" by auto
      have IH: "length arr' = length arr1 \<and> (\<forall>j\<ge>i. j \<notin> set calls1 \<and> index arr' j = index arr1 j)"
        unfolding arr1_def
        apply (rule "1.IH"[OF lt e0 nn d u[symmetric] rec[unfolded arr1_def]])
        using less "1.prems" idx by (auto simp: arr1_def)
      show ?thesis using IH idx calls less by (auto simp: arr1_def)
    qed
  qed
qed

text \<open>
  C10. In a call of \<^verbatim>\<open>handleUpdate\<close> that runs its loop over the array \<open>s1\<close> holds after
  the base class's update, if entry \<open>i\<close> (below the number of meshes) has a null
  navigation mesh or a null tile cache, then no entry with index \<open>j \<ge> i\<close> has its tile
  cache updated (\<open>j\<close> is not among the calls made) and every such entry is left as it
  was, whatever it holds.
\<close>

theorem handleUpdate_stops_at_first_null:
  assumes "s1 = Sample_handleUpdate dt s"
    and "handleUpdate_loop update dt GetNumNavMeshes 0 (m_NavMeshArray s1) = Some (arr', calls)"
    and "0 \<le> i" and "i < GetNumNavMeshes"
    and "index (m_NavMeshArray s1) i = Some e"
    and "is_null (m_navMesh e) \<or> is_null (m_tileCache e)"
  shows "handleUpdate Sample_handleUpdate GetNumNavMeshes update dt s
           = Some (s1\<lparr>m_NavMeshArray := arr'\<rparr>)
       \<and> (\<forall>j\<ge>i. j \<notin> set calls \<and> index arr' j = index (m_NavMeshArray s1) j)"
proof -
  from handleUpdate_loop_skips [OF assms(2) assms(3) assms(4) _ assms(5) assms(6)]
  have "\<forall>j\<ge>i. j \<notin> set calls \<and> index arr' j = index (m_NavMeshArray s1) j"
    by simp
  moreover have "handleUpdate Sample_handleUpdate GetNumNavMeshes update dt s
      = Some (s1\<lparr>m_NavMeshArray := arr'\<rparr>)"
    using assms(1,2) by (simp add: handleUpdate_def Let_def)
  ultimately show ?thesis by simp
qed

theorem handleUpdate_stops_at_first_null_witness:
  "handleUpdate (\<lambda>dt s. s) 3 example_update 1 example_sample
     = Some (example_sample\<lparr>m_NavMeshArray := (m_NavMeshArray example_sample)
          [0 := \<lparr>m_navMesh = Ptr 6, m_tileCache = Ptr (fst (example_update 1 example_cache 5)),
                  m_navQuery = Ptr 0\<rparr>]\<rparr>)
   \<and> index (m_NavMeshArray example_sample) 1 = Some null_entry
   \<and> index ((m_NavMeshArray example_sample)
          [0 := \<lparr>m_navMesh = Ptr 6, m_tileCache = Ptr (fst (example_update 1 example_cache 5)),
                  m_navQuery = Ptr 0\<rparr>]) 2
       = Some \<lparr>m_navMesh = Ptr 6, m_tileCache = Ptr example_cache, m_navQuery = Ptr 0\<rparr>"
proof -
  let ?arr = "m_NavMeshArray example_sample"
  let ?arr' = "?arr[0 := \<lparr>m_navMesh = Ptr 6, m_tileCache = Ptr (fst (example_update 1 example_cache 5)),
                  m_navQuery = Ptr 0\<rparr>]"
  have run: "handleUpdate_loop example_update 1 3 0 ?arr = Some (?arr', [0])"
    by (simp add: handleUpdate_loop.simps example_sample_def index_def is_null_def null_entry_def
        deref_def example_update_def)
  have e1: "index ?arr 1 = Some null_entry"
    by (simp add: example_sample_def index_def)
  have nul: "is_null (m_navMesh (null_entry :: (nat, nat) NavMeshEntry))
      \<or> is_null (m_tileCache (null_entry :: (nat, nat) NavMeshEntry))"
    by (simp add: null_entry_def is_null_def)
  from handleUpdate_stops_at_first_null [of example_sample "\<lambda>dt s. s" 1 example_sample
      example_update 3 ?arr' "[0]" 1 null_entry, OF refl run _ _ e1 nul]
  have "handleUpdate (\<lambda>dt s. s) 3 example_update 1 example_sample
          = Some (example_sample\<lparr>m_NavMeshArray := ?arr'\<rparr>)"
    and "index ?arr' 2 = index ?arr 2"
    by simp_all
  then show ?thesis
    using e1 by (simp add: example_sample_def index_def)
qed

section \<open>Properties of saving\<close>

lemma fwrite_at_end: "at_end fp \<Longrightarrow> fwrite x fp = append_items [x] fp"
  by (simp add: at_end_def fwrite_def append_items_def)

lemma at_end_append: "at_end fp \<Longrightarrow> at_end (append_items xs fp)"
  by (simp add: at_end_def append_items_def)

lemma append_items_append: "append_items ys (append_items xs fp) = append_items (xs @ ys) fp"
  by (simp add: append_items_def)

lemma append_items_Nil: "append_items [] fp = fp"
  by (simp add: append_items_def)

lemma SaveData_unconnect_eq:
  "SaveData_unconnect unc cons nm k =
     (map mark_dirty cons, fold unc (filter persisted cons) nm, k + int (length (filter persisted cons)))"
  by (induction cons arbitrary: nm k) (auto simp: mark_dirty_def persisted_def)

lemma filter_persisted_mark_dirty:
  "filter persisted (map mark_dirty cons) = map (\<lambda>con. con\<lparr>state := DT_OFFMESH_DIRTY\<rparr>) (filter persisted cons)"
  by (induction cons) (auto simp: persisted_def mark_dirty_def)

lemma fold_write_unless:
  assumes "at_end fp"
  shows "fold (\<lambda>x fp. if Q x then fp else fwrite (g x) fp) xs fp
         = append_items (map g (filter (\<lambda>x. \<not> Q x) xs)) fp"
  using assms
proof (induction xs arbitrary: fp)
  case Nil then show ?case by (simp add: append_items_Nil)
next
  case (Cons x xs)
  then show ?case
    by (auto simp: fwrite_at_end at_end_append append_items_append)
qed

lemma fold_write2_unless:
  assumes "at_end fp"
  shows "fold (\<lambda>x fp. if Q x then fp else fwrite (g2 x) (fwrite (g1 x) fp)) xs fp
         = append_items (concat (map (\<lambda>x. [g1 x, g2 x]) (filter (\<lambda>x. \<not> Q x) xs))) fp"
  using assms
proof (induction xs arbitrary: fp)
  case Nil then show ?case by (simp add: append_items_Nil)
next
  case (Cons x xs)
  then show ?case
    by (auto simp: fwrite_at_end at_end_append append_items_append)
qed

lemma fold_count_unless:
  "fold (\<lambda>x k. if Q x then k else k + 1) xs (k0::int) = k0 + int (length (filter (\<lambda>x. \<not> Q x) xs))"
  by (induction xs arbitrary: k0) auto

lemma SaveData_write_cons_eq:
  "at_end fp \<Longrightarrow> SaveData_write_cons cons fp = append_items (map OffMeshCon (filter persisted cons)) fp"
  by (simp add: SaveData_write_cons_def fold_write_unless persisted_def[abs_def])

lemma not_skip_stored:
  "(\<lambda>x. \<not> (case x of (ii, tile) \<Rightarrow> header tile = None \<or> dataSize tile = 0)) = (\<lambda>(ii, tile). stored tile)"
  by (auto simp: stored_def fun_eq_iff)

lemma SaveData_count_tiles_eq: "SaveData_count_tiles tc = int (length (stored_tiles tc))"
proof -
  have "SaveData_count_tiles tc =
    fold (\<lambda>x k. if (case x of (ii, tile) \<Rightarrow> header tile = None \<or> dataSize tile = 0) then k else k + 1)
       (enumerate 0 (m_tiles tc)) 0"
    unfolding SaveData_count_tiles_def by (rule arg_cong[where f="\<lambda>f. fold f _ _"]) (auto simp: fun_eq_iff)
  then show ?thesis by (simp add: fold_count_unless not_skip_stored stored_tiles_def)
qed

lemma SaveData_write_tiles_eq:
  assumes "at_end fp"
  shows "SaveData_write_tiles tc fp = append_items (tile_items tc) fp"
proof -
  have "SaveData_write_tiles tc fp =
    fold (\<lambda>x fp. if (case x of (ii, tile) \<Rightarrow> header tile = None \<or> dataSize tile = 0) then fp
       else fwrite (case x of (ii, tile) \<Rightarrow> TileData (data tile))
              (fwrite (case x of (ii, tile) \<Rightarrow> TileHeader \<lparr>tileRef = getTileRef tc ii, th_dataSize = dataSize tile\<rparr>) fp))
       (enumerate 0 (m_tiles tc)) fp"
    unfolding SaveData_write_tiles_def by (rule arg_cong[where f="\<lambda>f. fold f _ _"]) (auto simp: fun_eq_iff)
  also have "\<dots> = append_items (tile_items tc) fp"
    unfolding fold_write2_unless[OF assms] not_skip_stored tile_items_def stored_tiles_def
    by (rule arg_cong[where f="\<lambda>xs. append_items xs fp"], rule arg_cong[where f=concat], rule map_cong) auto
  finally show ?thesis .
qed

lemma SaveData_count_vols_eq: "SaveData_count_vols ext g i = int (length (saved_vols ext g i))"
  by (simp add: SaveData_count_vols_def fold_count_unless saved_vols_def)

lemma SaveData_count_hints_eq: "SaveData_count_hints ext g i = int (length (saved_hints ext g i))"
  by (simp add: SaveData_count_hints_def fold_count_unless saved_hints_def)

lemma SaveData_write_vols_eq:
  "at_end fp \<Longrightarrow> SaveData_write_vols ext g i fp = append_items (map ConvexVol (saved_vols ext g i)) fp"
  by (simp add: SaveData_write_vols_def fold_write_unless saved_vols_def comp_def)

lemma SaveData_write_hints_eq:
  "at_end fp \<Longrightarrow> SaveData_write_hints ext g i fp = append_items (map NavHintItem (saved_hints ext g i)) fp"
  by (simp add: SaveData_write_hints_def fold_write_unless saved_hints_def comp_def)

lemma rewrite_section_header:
  assumes "at_end fp"
  shows "fseek (ftell (append_items (x # xs) fp)) (fwrite y (fseek (ftell fp) (append_items (x # xs) fp)))
         = append_items (y # xs) fp"
  using assms
  by (simp add: at_end_def fseek_def ftell_def fwrite_def append_items_def list_update_append)


lemma ftell_append_items: "ftell (append_items xs fp) = int (cursor fp) + int (length xs)"
  by (simp add: ftell_def append_items_def)

lemma overwrite_first:
  assumes "at_end fp" and "0 \<le> n"
  shows "fseek n (fwrite y (fseek (ftell fp) (append_items (x # xs) fp)))
         = \<lparr>content = content fp @ y # xs, cursor = nat n\<rparr>"
  using assms
  by (simp add: at_end_def fseek_def ftell_def fwrite_def append_items_def list_update_append)

lemma SaveData_mesh_eq:
  assumes e: "at_end fp" and i: "0 \<le> i" "i < int (length (tileCacheOffsets H))"
    and ent: "index (m_NavMeshArray s) i = Some e"
    and nm: "deref (m_navMesh e) = Some nm" and tc: "deref (m_tileCache e) = Some tc"
  shows "SaveData_mesh ext i (s, fp, H) =
     Some (s\<lparr>m_NavMeshArray := (m_NavMeshArray s)
               [nat i := e\<lparr>m_navMesh := Ptr (fold (unconnectOffMeshLink ext) (persisted_cons tc) nm),
                           m_tileCache := Ptr (tc\<lparr>m_offMeshConnections := map mark_dirty (m_offMeshConnections tc)\<rparr>)\<rparr>]\<rparr>,
           append_items (section_items ext (m_geom s) i nm tc (cursor fp)) fp,
           H\<lparr>tileCacheOffsets := (tileCacheOffsets H)[nat i := int (cursor fp)]\<rparr>)"
proof -
  have e1: "at_end (append_items xs fp)" for xs by (rule at_end_append[OF e])
  note wr = fwrite_at_end[OF e] SaveData_write_tiles_eq[OF e1] SaveData_write_cons_eq[OF e1]
    SaveData_write_vols_eq[OF e1] SaveData_write_hints_eq[OF e1]
  show ?thesis
    unfolding SaveData_mesh_def
    using i ent nm tc
    apply (simp add: SaveData_unconnect_eq Let_def SaveData_count_tiles_eq SaveData_count_vols_eq
        SaveData_count_hints_eq wr append_items_append ftell_append_items overwrite_first[OF e]
        filter_persisted_mark_dirty persisted_cons_def[symmetric] comp_def)
    apply (simp add: section_items_def section_header_def append_items_def ftell_def con_items_def comp_def)
    done
qed


lemma saved_sections_cong:
  assumes "m_geom s1 = m_geom s" and "\<forall>j\<in>set is. entry_objects s1 (int j) = entry_objects s (int j)"
  shows "saved_sections ext s1 is p = saved_sections ext s is p"
  using assms by (induction "is" arbitrary: p) (auto split: option.splits)

lemma entry_objects_update_other:
  "j \<noteq> i \<Longrightarrow> 0 \<le> i \<Longrightarrow> entry_objects (s\<lparr>m_NavMeshArray := (m_NavMeshArray s)[nat i := e]\<rparr>) j = entry_objects s j"
  by (auto simp: entry_objects_def index_def nat_eq_iff split: option.splits)

lemma entry_objects_update_other_nat:
  "j \<noteq> i \<Longrightarrow> entry_objects (s\<lparr>m_NavMeshArray := (m_NavMeshArray s)[i := e]\<rparr>) (int j) = entry_objects s (int j)"
  using entry_objects_update_other[of "int j" "int i" s e] by simp

lemma SaveData_meshes_eq:
  assumes "at_end fp" and "distinct is"
    and "\<forall>i\<in>set is. i < length (tileCacheOffsets H) \<and> entry_objects s (int i) \<noteq> None"
  shows "\<exists>s'. SaveData_meshes ext is (s, fp, H) =
           Some (s', append_items (concat (map snd (saved_sections ext s is (cursor fp)))) fp,
                 H\<lparr>tileCacheOffsets := saved_offsets (tileCacheOffsets H) is (saved_sections ext s is (cursor fp))\<rparr>)
         \<and> m_geom s' = m_geom s"
  using assms
proof (induction "is" arbitrary: s fp H)
  case Nil
  then show ?case by (simp add: append_items_Nil saved_offsets_def)
next
  case (Cons i "is")
  from Cons.prems obtain nm tc where eo: "entry_objects s (int i) = Some (nm, tc)" by auto
  then obtain e where ent: "index (m_NavMeshArray s) (int i) = Some e"
    and nm: "deref (m_navMesh e) = Some nm" and tc: "deref (m_tileCache e) = Some tc"
    by (auto simp: entry_objects_def split: option.splits)
  let ?sec = "section_items ext (m_geom s) (int i) nm tc (cursor fp)"
  let ?s1 = "s\<lparr>m_NavMeshArray := (m_NavMeshArray s)
               [i := e\<lparr>m_navMesh := Ptr (fold (unconnectOffMeshLink ext) (persisted_cons tc) nm),
                           m_tileCache := Ptr (tc\<lparr>m_offMeshConnections := map mark_dirty (m_offMeshConnections tc)\<rparr>)\<rparr>]\<rparr>"
  let ?fp1 = "append_items ?sec fp"
  let ?H1 = "H\<lparr>tileCacheOffsets := (tileCacheOffsets H)[i := int (cursor fp)]\<rparr>"
  have step: "SaveData_mesh ext (int i) (s, fp, H) = Some (?s1, ?fp1, ?H1)"
    using SaveData_mesh_eq[OF Cons.prems(1) _ _ ent nm tc, of H ext] Cons.prems by simp
  have other: "entry_objects ?s1 (int j) = entry_objects s (int j)" if "j \<in> set is" for j
  proof -
    from that Cons.prems(2) have "j \<noteq> i" by auto
    then show ?thesis by (simp add: entry_objects_update_other_nat)
  qed
  have same: "saved_sections ext ?s1 is p = saved_sections ext s is p" for p
    by (intro saved_sections_cong) (auto simp: other)
  have "\<exists>s'. SaveData_meshes ext is (?s1, ?fp1, ?H1) =
           Some (s', append_items (concat (map snd (saved_sections ext ?s1 is (cursor ?fp1)))) ?fp1,
                 ?H1\<lparr>tileCacheOffsets := saved_offsets (tileCacheOffsets ?H1) is (saved_sections ext ?s1 is (cursor ?fp1))\<rparr>)
         \<and> m_geom s' = m_geom ?s1"
    using Cons.prems by (intro Cons.IH) (auto simp: at_end_append other)
  then show ?case
    using step eo by (auto simp: same append_items_append saved_offsets_def append_items_def)
qed


lemma SaveData_mesh_Some:
  assumes "SaveData_mesh ext i (s, fp, H) = Some r"
  shows "0 \<le> i \<and> i < int (length (tileCacheOffsets H)) \<and> entry_objects s i \<noteq> None"
  using assms
  by (auto simp: SaveData_mesh_def entry_objects_def split: if_splits option.splits)

lemma SaveData_meshes_Some:
  assumes "at_end fp" and "distinct is" and "SaveData_meshes ext is (s, fp, H) = Some r"
  shows "\<forall>i\<in>set is. i < length (tileCacheOffsets H) \<and> entry_objects s (int i) \<noteq> None"
  using assms
proof (induction "is" arbitrary: s fp H)
  case Nil
  then show ?case by simp
next
  case (Cons i "is")
  from Cons.prems(3) obtain acc where acc: "SaveData_mesh ext (int i) (s, fp, H) = Some acc"
    and rest: "SaveData_meshes ext is acc = Some r"
    by (auto split: option.splits)
  from SaveData_mesh_Some[OF acc] have v: "i < length (tileCacheOffsets H)" "entry_objects s (int i) \<noteq> None"
    by auto
  then obtain nm tc where eo: "entry_objects s (int i) = Some (nm, tc)" by auto
  then obtain e where ent: "index (m_NavMeshArray s) (int i) = Some e"
    and nm: "deref (m_navMesh e) = Some nm" and tc: "deref (m_tileCache e) = Some tc"
    by (auto simp: entry_objects_def split: option.splits)
  let ?s1 = "s\<lparr>m_NavMeshArray := (m_NavMeshArray s)
               [i := e\<lparr>m_navMesh := Ptr (fold (unconnectOffMeshLink ext) (persisted_cons tc) nm),
                           m_tileCache := Ptr (tc\<lparr>m_offMeshConnections := map mark_dirty (m_offMeshConnections tc)\<rparr>)\<rparr>]\<rparr>"
  let ?fp1 = "append_items (section_items ext (m_geom s) (int i) nm tc (cursor fp)) fp"
  let ?H1 = "H\<lparr>tileCacheOffsets := (tileCacheOffsets H)[i := int (cursor fp)]\<rparr>"
  have step: "SaveData_mesh ext (int i) (s, fp, H) = Some (?s1, ?fp1, ?H1)"
    using SaveData_mesh_eq[OF Cons.prems(1) _ _ ent nm tc, of H ext] v by simp
  with acc have acc_eq: "acc = (?s1, ?fp1, ?H1)" by simp
  have other: "entry_objects ?s1 (int j) = entry_objects s (int j)" if "j \<in> set is" for j
  proof -
    from that Cons.prems(2) have "j \<noteq> i" by auto
    then show ?thesis by (simp add: entry_objects_update_other_nat)
  qed
  have "\<forall>j\<in>set is. j < length (tileCacheOffsets ?H1) \<and> entry_objects ?s1 (int j) \<noteq> None"
    using Cons.prems(2) rest[unfolded acc_eq]
    by (intro Cons.IH[of ?fp1]) (auto simp: at_end_append[OF Cons.prems(1)])
  then show ?case using v by (auto simp: other)
qed

lemma at_end_start: "at_end (fwrite x fopen_wb)" "at_end fopen_wb"
  by (simp_all add: at_end_def fwrite_def fopen_wb_def)

lemma overwrite_file_header:
  "content (fwrite y (fseek 0 (append_items xs (fwrite x fopen_wb)))) = y # xs"
  by (simp add: fwrite_def fseek_def append_items_def fopen_wb_def)

lemma SaveData_writes_saved_file:
  assumes "SaveData ext NumMeshes fopen_ok s = Some (s', Some items)"
  shows "items = saved_file ext NumMeshes s
         \<and> (\<forall>i\<in>set [0..<nat NumMeshes]. i < 8 \<and> entry_objects s (int i) \<noteq> None)"
proof -
  let ?surf = "getSurfaceTypes ext (m_geom s)"
  let ?pre = "if ?surf = [] then [] else [SurfTypes ?surf]"
  let ?H0 = "\<lparr>magic = TILECACHESET_MAGIC, version = TILECACHESET_VERSION,
                    numTileCaches = NumMeshes, tileCacheDataOffset = 0,
                    tileCacheOffsets = replicate 8 0,
                    NumSurfTypes = int (length ?surf), SurfTypesOffset = 0\<rparr>"
  let ?fp1 = "fwrite (ExportHeader ?H0) fopen_wb"
  let ?fp2 = "append_items ?pre ?fp1"
  let ?H2 = "?H0\<lparr>SurfTypesOffset := 1, tileCacheDataOffset := int (1 + length ?pre)\<rparr>"
  let ?is = "[0..<nat NumMeshes]"
  have e1: "at_end ?fp1" by (rule at_end_start)
  have e2: "at_end ?fp2" by (rule at_end_append[OF e1])
  have fp2: "(if ?surf = [] then ?fp1 else fwrite (SurfTypes ?surf) ?fp1) = ?fp2"
    by (simp add: fwrite_at_end[OF e1] append_items_Nil)
  have H2: "?H0\<lparr>SurfTypesOffset := ftell ?fp1, tileCacheDataOffset := ftell ?fp2\<rparr> = ?H2"
    by (simp add: ftell_def append_items_def fwrite_def fopen_wb_def)
  from assms obtain fp3 H3 where
    loop: "SaveData_meshes ext ?is (s, ?fp2, ?H2) = Some (s', fp3, H3)"
    and items: "items = content (fwrite (ExportHeader H3) (fseek 0 fp3))"
    unfolding SaveData_def Let_def fp2
    by (auto simp: H2 ftell_def append_items_def fwrite_def fopen_wb_def split: option.splits if_splits)
  from SaveData_meshes_Some[OF e2 _ loop]
  have valid: "\<forall>i\<in>set ?is. i < length (tileCacheOffsets ?H2) \<and> entry_objects s (int i) \<noteq> None"
    by simp
  from SaveData_meshes_eq[OF e2 _ valid, of ext] loop
  have fp3: "fp3 = append_items (concat (map snd (saved_sections ext s ?is (cursor ?fp2)))) ?fp2"
    and H3: "H3 = ?H2\<lparr>tileCacheOffsets := saved_offsets (tileCacheOffsets ?H2) ?is (saved_sections ext s ?is (cursor ?fp2))\<rparr>"
    by auto
  have cur: "cursor ?fp2 = 1 + length ?pre"
    by (simp add: append_items_def fwrite_def fopen_wb_def)
  have "items = saved_file ext NumMeshes s"
    unfolding items fp3 H3 cur append_items_append overwrite_file_header saved_file_def Let_def
    by simp
  with valid show ?thesis by simp
qed

lemma map_filter_append: "List.map_filter f (xs @ ys) = List.map_filter f xs @ List.map_filter f ys"
  by (simp add: List.map_filter_def)

lemma map_filter_map_None: "(\<And>x. f (g x) = None) \<Longrightarrow> List.map_filter f (map g xs) = []"
  by (induction xs) (simp_all add: List.map_filter_simps)

lemma map_filter_map_Some: "(\<And>x. f (g x) = Some (h x)) \<Longrightarrow> List.map_filter f (map g xs) = map h xs"
  by (induction xs) (simp_all add: List.map_filter_simps)

lemma tile_items_no_con: "List.map_filter as_OffMeshCon (tile_items tc) = []"
proof -
  have "List.map_filter as_OffMeshCon
          (concat (map (\<lambda>(ii, tile). [TileHeader (h ii tile), TileData (data tile)]) xs)) = []"
    for h and xs :: "(nat \<times> dtCompressedTile) list"
    by (induction xs) (auto simp: List.map_filter_simps)
  then show ?thesis unfolding tile_items_def .
qed

lemma tile_items_no_header: "List.map_filter as_SetHeader (tile_items tc) = []"
proof -
  have "List.map_filter as_SetHeader
          (concat (map (\<lambda>(ii, tile). [TileHeader (h ii tile), TileData (data tile)]) xs)) = []"
    for h and xs :: "(nat \<times> dtCompressedTile) list"
    by (induction xs) (auto simp: List.map_filter_simps)
  then show ?thesis unfolding tile_items_def .
qed

lemma section_items_cons:
  "List.map_filter as_OffMeshCon (section_items ext g i nm tc p)
     = map (\<lambda>con. con\<lparr>state := DT_OFFMESH_DIRTY\<rparr>) (persisted_cons tc)"
  by (simp add: section_items_def List.map_filter_simps map_filter_append tile_items_no_con
      map_filter_map_None con_items_def map_filter_map_Some[where h="\<lambda>con. con\<lparr>state := DT_OFFMESH_DIRTY\<rparr>"])

lemma section_items_headers:
  "List.map_filter as_SetHeader (section_items ext g i nm tc p) = [section_header ext g i nm tc p]"
  by (simp add: section_items_def List.map_filter_simps map_filter_append tile_items_no_header
      map_filter_map_None con_items_def)

lemma saved_sections_cons:
  assumes "\<forall>i\<in>set is. entry_objects s (int i) \<noteq> None"
  shows "List.map_filter as_OffMeshCon (concat (map snd (saved_sections ext s is p)))
     = concat (map (\<lambda>i. map (\<lambda>con. con\<lparr>state := DT_OFFMESH_DIRTY\<rparr>) (saved_cons s (int i))) is)"
  using assms
  by (induction "is" arbitrary: p)
     (auto simp: List.map_filter_simps map_filter_append section_items_cons saved_cons_def)

lemma saved_sections_counts:
  assumes "\<forall>i\<in>set is. entry_objects s (int i) \<noteq> None"
  shows "map NumOffMeshCons (List.map_filter as_SetHeader (concat (map snd (saved_sections ext s is p))))
     = map (\<lambda>i. int (length (saved_cons s (int i)))) is"
  using assms
  by (induction "is" arbitrary: p)
     (auto simp: List.map_filter_simps map_filter_append section_items_headers saved_cons_def section_header_def)

text \<open>
  C9. Whenever \<^verbatim>\<open>SaveData\<close> writes a file, the connection records in the file are, mesh
  by mesh and in table order, exactly the connections of that mesh's tile cache whose
  state is neither EMPTY nor REMOVING (\<open>saved_cons\<close>; they are written after the first
  loop has set their state to DIRTY), and the \<^verbatim>\<open>NumOffMeshCons\<close> of the header of each
  mesh's section is their number. No connection in state EMPTY or REMOVING is in the
  file.
\<close>

theorem SaveData_persists_live_connections:
  assumes "SaveData ext NumMeshes fopen_ok s = Some (s', Some items)"
  shows "List.map_filter as_OffMeshCon items
           = concat (map (\<lambda>i. map (\<lambda>con. con\<lparr>state := DT_OFFMESH_DIRTY\<rparr>) (saved_cons s (int i)))
                       [0..<nat NumMeshes])
       \<and> map NumOffMeshCons (List.map_filter as_SetHeader items)
           = map (\<lambda>i. int (length (saved_cons s (int i)))) [0..<nat NumMeshes]
"
proof -
  from SaveData_writes_saved_file[OF assms]
  have items: "items = saved_file ext NumMeshes s"
    and valid: "\<forall>i\<in>set [0..<nat NumMeshes]. entry_objects s (int i) \<noteq> None"
    by auto
  have 1: "List.map_filter as_OffMeshCon items
           = concat (map (\<lambda>i. map (\<lambda>con. con\<lparr>state := DT_OFFMESH_DIRTY\<rparr>) (saved_cons s (int i)))
                       [0..<nat NumMeshes])"
    unfolding items saved_file_def Let_def
    by (simp add: List.map_filter_simps map_filter_append saved_sections_cons[OF valid])
  have 2: "map NumOffMeshCons (List.map_filter as_SetHeader items)
           = map (\<lambda>i. int (length (saved_cons s (int i)))) [0..<nat NumMeshes]"
    unfolding items saved_file_def Let_def
    by (simp add: List.map_filter_simps map_filter_append saved_sections_counts[OF valid])
  from 1 2 show ?thesis by blast
qed

theorem SaveData_persists_live_connections_witness:
  "\<exists>s' items. SaveData example_ext 1 True example_sample = Some (s', Some items)
     \<and> List.map_filter as_OffMeshCon items
         = [example_con 1 DT_OFFMESH_DIRTY, example_con 4 DT_OFFMESH_DIRTY]
     \<and> map NumOffMeshCons (List.map_filter as_SetHeader items) = [2]"
proof -
  have "case SaveData example_ext 1 True example_sample of
          Some (s', Some items) \<Rightarrow> True | _ \<Rightarrow> False"
    by code_simp
  then obtain s' items where
    ev: "SaveData example_ext 1 True example_sample = Some (s', Some items)"
    by (auto split: option.splits prod.splits)
  have sc: "saved_cons example_sample 0
      = [example_con 1 DT_OFFMESH_DIRTY, example_con 4 DT_OFFMESH_DIRTY]"
    by code_simp
  from SaveData_persists_live_connections [OF ev] sc
  have "List.map_filter as_OffMeshCon items
          = [example_con 1 DT_OFFMESH_DIRTY, example_con 4 DT_OFFMESH_DIRTY]
     \<and> map NumOffMeshCons (List.map_filter as_SetHeader items) = [2]"
    by (simp add: example_con_def)
  with ev show ?thesis
    by (intro exI [of _ s'] exI [of _ items]) simp
qed

section \<open>Properties of loading\<close>

text \<open>
  C3. When the file starts with a file header whose magic or version is not the
  expected constant, \<^verbatim>\<open>loadAll\<close> returns with the sample exactly as it was: no pointer
  of \<^verbatim>\<open>m_NavMeshArray\<close> has been freed or replaced, and the geometry is untouched.
\<close>

theorem loadAll_rejects_bad_header:
  assumes "magic fileHeader \<noteq> TILECACHESET_MAGIC \<or> version fileHeader \<noteq> TILECACHESET_VERSION"
  shows "loadAll ext (Some (ExportHeader fileHeader # rest)) s = Some s"
  using assms by (auto simp: loadAll_def fread_def fopen_rb_def)

theorem loadAll_rejects_bad_header_witness:
  "magic example_bad_header \<noteq> TILECACHESET_MAGIC
   \<and> loadAll example_ext
        (Some (ExportHeader example_bad_header # tl (saved_file example_ext 1 example_sample)))
        example_sample
      = Some example_sample"
proof -
  have bad: "magic example_bad_header \<noteq> TILECACHESET_MAGIC"
    by (simp add: example_bad_header_def)
  then have "magic example_bad_header \<noteq> TILECACHESET_MAGIC
      \<or> version example_bad_header \<noteq> TILECACHESET_VERSION"
    by simp
  from loadAll_rejects_bad_header [OF this] bad show ?thesis
    by simp
qed

text \<open>A file that cannot be opened, or that ends before its file header, leaves the
  sample as it was too.\<close>

lemma loadAll_without_header:
  "loadAll ext None s = Some s"
  "loadAll ext (Some []) s = Some s"
  by (simp_all add: loadAll_def fread_def fopen_rb_def)






lemma upt_conv_Cons': "0 < r \<Longrightarrow> [n..<n + r] = n # [Suc n..<n + r]"
  by (simp add: upt_conv_Cons)




lemma not_stored_free [simp]: "\<not> stored free_tile"
  by (simp add: stored_def free_tile_def)

lemma not_persisted_free [simp]: "\<not> persisted free_offMeshConnection"
  by (simp add: persisted_def free_offMeshConnection_def)















lemma index_geom_update [simp]:
  "m_NavMeshArray (s\<lparr>m_geom := g\<rparr>) = m_NavMeshArray s"
  by simp










text \<open>
  The radius of a connection is written to the file and not read back: \<^verbatim>\<open>loadAll\<close> adds
  every connection with the radius 10, where \<^verbatim>\<open>handleBuild\<close> re-adds connections with
  their own radius.
\<close>

lemma loadAll_replaces_radius:
  "\<exists>s2 tc2.
     save_then_load example_ext 1 example_sample fresh_sample = Some s2
   \<and> tileCache_of s2 0 = Some tc2
   \<and> map rad (persisted_cons example_cache) = [16, 16]
   \<and> map rad (persisted_cons tc2) = [10, 10]"
proof -
  let ?r = "save_then_load example_ext 1 example_sample fresh_sample"
  have 1: "?r = Some (the ?r)"
    by code_simp
  have 2: "tileCache_of (the ?r) 0 = Some (the (tileCache_of (the ?r) 0))"
    by code_simp
  have 3: "map rad (persisted_cons example_cache) = [16, 16]"
    by code_simp
  have 4: "map rad (persisted_cons (the (tileCache_of (the ?r) 0))) = [10, 10]"
    by code_simp
  show ?thesis
    by (rule exI [of _ "the ?r"], rule exI [of _ "the (tileCache_of (the ?r) 0)"])
       (intro conjI 1 2 3 4)
qed

end
